theory Spec2Isabelle
  imports Main
begin

section \<open>Python values and the operations the program applies to them\<close>

text \<open>
  The program works on decoded JSON: dictionaries, lists, strings, numbers, booleans and
  \<open>None\<close>. A dictionary is an association list in the order of the response; a number is
  never inspected by the program, so its payload is an integer. A Python string is a
  \<open>string\<close>, one element for each character.
\<close>

datatype json =
    JNull
  | JBool bool
  | JNum int
  | JStr string
  | JArr "json list"
  | JObj "(string \<times> json) list"

text \<open>The exceptions the modelled statements can raise.\<close>

datatype exn = KeyError | IndexError | TypeError | JSONDecodeError | ConnectionError

text \<open>Sequencing of statements that may raise: the first exception aborts what follows.\<close>

fun then_do :: "exn + 'a \<Rightarrow> ('a \<Rightarrow> exn + 'b) \<Rightarrow> exn + 'b" where
  "then_do (Inl e) f = Inl e"
| "then_do (Inr x) f = f x"

text \<open>
  Library functions of Python whose results the program only passes on: the JSON decoder,
  \<open>str()\<close> of a value that is not a string, \<open>str.title\<close>, \<open>str.upper\<close> and \<open>str.strip\<close>.
  They are parameters of the model.
\<close>

record pylib =
  json_decode :: "string \<Rightarrow> exn + json"
  py_repr :: "json \<Rightarrow> string"
  str_title :: "string \<Rightarrow> string"
  str_upper :: "string \<Rightarrow> string"
  str_strip :: "string \<Rightarrow> string"

text \<open>\<open>str(v)\<close>: a string is returned as it is.\<close>

definition py_str :: "pylib \<Rightarrow> json \<Rightarrow> string" where
  "py_str lib v = (case v of JStr s \<Rightarrow> s | _ \<Rightarrow> py_repr lib v)"

text \<open>\<open>v[k]\<close> with a string key: only a dictionary accepts it, and raises KeyError without the key.\<close>

definition getitem_str :: "json \<Rightarrow> string \<Rightarrow> exn + json" where
  "getitem_str v k =
     (case v of
        JObj kvs \<Rightarrow> (case map_of kvs k of None \<Rightarrow> Inl KeyError | Some x \<Rightarrow> Inr x)
      | _ \<Rightarrow> Inl TypeError)"

text \<open>
  \<open>v[i]\<close> with a non-negative integer index: a list or a string is indexed (IndexError out of
  range), a dictionary of a JSON response has no integer key, anything else is not
  subscriptable.
\<close>

definition getitem_int :: "json \<Rightarrow> nat \<Rightarrow> exn + json" where
  "getitem_int v i =
     (case v of
        JArr xs \<Rightarrow> (if i < length xs then Inr (xs ! i) else Inl IndexError)
      | JStr s \<Rightarrow> (if i < length s then Inr (JStr [s ! i]) else Inl IndexError)
      | JObj kvs \<Rightarrow> Inl KeyError
      | _ \<Rightarrow> Inl TypeError)"

fun py_substring :: "string \<Rightarrow> string \<Rightarrow> bool" where
  "py_substring p [] = (p = [])"
| "py_substring p (c # cs) = (take (length p) (c # cs) = p \<or> py_substring p cs)"

text \<open>
  \<open>k in v\<close> for a string \<open>k\<close>: key membership in a dictionary, element membership in a list,
  substring test in a string, TypeError otherwise.
\<close>

definition py_in :: "string \<Rightarrow> json \<Rightarrow> exn + bool" where
  "py_in k v =
     (case v of
        JObj kvs \<Rightarrow> Inr (k \<in> set (map fst kvs))
      | JArr xs \<Rightarrow> Inr (JStr k \<in> set xs)
      | JStr s \<Rightarrow> Inr (py_substring k s)
      | _ \<Rightarrow> Inl TypeError)"

text \<open>
  \<open>for x in v\<close>: a list yields its elements, a dictionary its keys, a string its characters;
  anything else is not iterable.
\<close>

definition py_iter :: "json \<Rightarrow> exn + json list" where
  "py_iter v =
     (case v of
        JArr xs \<Rightarrow> Inr xs
      | JObj kvs \<Rightarrow> Inr (map (\<lambda>kv. JStr (fst kv)) kvs)
      | JStr s \<Rightarrow> Inr (map (\<lambda>c. JStr [c]) s)
      | _ \<Rightarrow> Inl TypeError)"

text \<open>\<open>"literal" + v\<close>: concatenation needs a string on the right.\<close>

definition py_concat :: "string \<Rightarrow> json \<Rightarrow> exn + string" where
  "py_concat s v = (case v of JStr t \<Rightarrow> Inr (s @ t) | _ \<Rightarrow> Inl TypeError)"

text \<open>\<open>str(n)\<close> of a non-negative integer.\<close>

definition digit_char :: "nat \<Rightarrow> char" where
  "digit_char d = ''0123456789'' ! d"

fun str_nat :: "nat \<Rightarrow> string" where
  "str_nat n = (if n < 10 then [digit_char n] else str_nat (n div 10) @ [digit_char (n mod 10)])"

declare str_nat.simps [simp del]

section \<open>The client: CompaniesHouseService\<close>

text \<open>
  Times are in microseconds, the resolution of \<open>datetime.now()\<close>, and arithmetic on them is
  exact. \<open>last_request_timestamp\<close> is \<open>None\<close> until the first request.
\<close>

record client =
  key :: string
  time_between_requests :: int
  last_request_timestamp :: "int option"

text \<open>Construction with the default interval of 0.6 seconds.\<close>

definition new_client :: "string \<Rightarrow> client" where
  "new_client k = \<lparr>key = k, time_between_requests = 600000, last_request_timestamp = None\<rparr>"

text \<open>
  What lies outside the process: the wall clock, the time the environment lets pass
  (\<open>pending\<close>: one amount is consumed before every reading of the clock and by every HTTP
  request), the durations handed to \<open>time.sleep\<close>, the URLs requested so far and, for
  each of them, the clock reading at which \<open>requests.get\<close> was called (\<open>sent_at\<close>).
  \<open>time.sleep d\<close> blocks for at least \<open>d\<close>. No time passes between the statement that
  stores the timestamp and the call of \<open>requests.get\<close> that follows it.
\<close>

record world =
  clock :: int
  pending :: "nat list"
  sleeps :: "int list"
  sent :: "string list"
  sent_at :: "int list"

definition elapse :: "world \<Rightarrow> world" where
  "elapse w =
     (case pending w of
        [] \<Rightarrow> w
      | d # ds \<Rightarrow> w\<lparr>clock := clock w + int d, pending := ds\<rparr>)"

definition now :: "world \<Rightarrow> int \<times> world" where
  "now w = (let w' = elapse w in (clock w', w'))"

definition sleep :: "int \<Rightarrow> world \<Rightarrow> world" where
  "sleep d w = w\<lparr>clock := clock w + d, sleeps := sleeps w @ [d]\<rparr>"

record http_response =
  status_code :: int
  response_text :: string

text \<open>
  The registry: what \<open>requests.get\<close> yields for a URL after the requests made so far,
  a response or a transport exception.
\<close>

type_synonym registry = "string list \<Rightarrow> string \<Rightarrow> exn + http_response"

text \<open>The URL templates; the query replaces the placeholder that ends each of them.\<close>

definition search_url :: string where
  "search_url = ''https://api.companieshouse.gov.uk/search/companies?q=''"

definition company_url :: string where
  "company_url = ''https://api.companieshouse.gov.uk/company/''"

definition root_url :: string where
  "root_url = ''https://api.companieshouse.gov.uk''"

definition url_format :: "string \<Rightarrow> string \<Rightarrow> string" where
  "url_format url query = url @ query"

definition rate_limiting :: "client \<Rightarrow> world \<Rightarrow> client \<times> world" where
  "rate_limiting c w =
     (case last_request_timestamp c of
        None \<Rightarrow>
          (let (t, w1) = now w in (c\<lparr>last_request_timestamp := Some t\<rparr>, w1))
      | Some last_ts \<Rightarrow>
          (let (current_time, w1) = now w;
               time_since_request = current_time - last_ts;
               wait_time = max (time_between_requests c - time_since_request) 0;
               w2 = sleep wait_time w1;
               (t, w3) = now w2
           in (c\<lparr>last_request_timestamp := Some t\<rparr>, w3)))"

definition query_ch_api ::
  "pylib \<Rightarrow> registry \<Rightarrow> client \<Rightarrow> string \<Rightarrow> string \<Rightarrow> world \<Rightarrow> (exn + json) \<times> client \<times> world" where
  "query_ch_api lib net c url query w =
     (let (c1, w1) = rate_limiting c w;
          target = url_format url query;
          w2 = elapse (w1\<lparr>sent := sent w1 @ [target], sent_at := sent_at w1 @ [clock w1]\<rparr>)
      in case net (sent w1) target of
           Inl e \<Rightarrow> (Inl e, c1, w2)
         | Inr resultQuery \<Rightarrow>
             (if status_code resultQuery = 200
              then (json_decode lib (response_text resultQuery), c1, w2)
              else (Inr (JObj []), c1, w2)))"

text \<open>\<open>get_first_company_search\<close>: only IndexError is caught by the \<open>try\<close> block.\<close>

definition get_first_company_search ::
  "pylib \<Rightarrow> registry \<Rightarrow> client \<Rightarrow> string \<Rightarrow> world \<Rightarrow> (exn + json option) \<times> client \<times> world" where
  "get_first_company_search lib net c company_name w =
     (case query_ch_api lib net c search_url company_name w of
        (Inl e, c1, w1) \<Rightarrow> (Inl e, c1, w1)
      | (Inr search_result, c1, w1) \<Rightarrow>
          (case then_do (getitem_str search_result ''items'') (\<lambda>items. getitem_int items 0) of
             Inl IndexError \<Rightarrow> (Inr None, c1, w1)
           | Inl e \<Rightarrow> (Inl e, c1, w1)
           | Inr first_result \<Rightarrow> (Inr (Some first_result), c1, w1)))"

definition get_company_profile ::
  "pylib \<Rightarrow> registry \<Rightarrow> client \<Rightarrow> string \<Rightarrow> world \<Rightarrow> (exn + json) \<times> client \<times> world" where
  "get_company_profile lib net c company_number w =
     query_ch_api lib net c company_url company_number w"

text \<open>The loop of \<open>get_company_directors\<close> over the officer list.\<close>

fun directors_loop :: "json list \<Rightarrow> json list \<Rightarrow> exn + json list" where
  "directors_loop [] directors = Inr directors"
| "directors_loop (officer # rest) directors =
     then_do (getitem_str officer ''officer_role'') (\<lambda>role.
       if role = JStr ''director''
       then then_do (getitem_str officer ''name'') (\<lambda>name.
              directors_loop rest (directors @ [name]))
       else directors_loop rest directors)"

definition page_suffix :: string where
  "page_suffix = ''?items_per_page=200?start_index=0''"

definition directors_of :: "json \<Rightarrow> exn + json list" where
  "directors_of officers =
     then_do (getitem_str officers ''items'') (\<lambda>items.
     then_do (py_iter items) (\<lambda>officer_list.
       directors_loop officer_list []))"

definition get_company_directors ::
  "pylib \<Rightarrow> registry \<Rightarrow> client \<Rightarrow> string \<Rightarrow> world \<Rightarrow> (exn + json list) \<times> client \<times> world" where
  "get_company_directors lib net c officers_path w =
     (case query_ch_api lib net c root_url (officers_path @ page_suffix) w of
        (Inl e, c1, w1) \<Rightarrow> (Inl e, c1, w1)
      | (Inr officers, c1, w1) \<Rightarrow> (directors_of officers, c1, w1))"

text \<open>
  \<open>get_company_charges\<close>. The first loop counts the charges that are not fully satisfied.
\<close>

fun count_unsatisfied :: "json list \<Rightarrow> nat \<Rightarrow> exn + nat" where
  "count_unsatisfied [] requiredLength = Inr requiredLength"
| "count_unsatisfied (charge # rest) requiredLength =
     then_do (getitem_str charge ''status'') (\<lambda>status.
       if status \<noteq> JStr ''fully-satisfied''
       then count_unsatisfied rest (requiredLength + 1)
       else count_unsatisfied rest requiredLength)"

text \<open>\<open>unsatisfiedCharges[index][k] = v\<close> on the list of lists.\<close>

definition set_cell :: "string list list \<Rightarrow> nat \<Rightarrow> nat \<Rightarrow> string \<Rightarrow> exn + string list list" where
  "set_cell rows i k v =
     (if i < length rows \<and> k < length (rows ! i)
      then Inr (rows[i := (rows ! i)[k := v]])
      else Inl IndexError)"

text \<open>
  \<open>"Short particulars: " + d[0:100] + "..."\<close>: only a string can be sliced and then
  concatenated (a list is sliced but not concatenated, a dictionary is not sliced).
\<close>

definition short_particulars :: "json \<Rightarrow> exn + string" where
  "short_particulars d =
     (case d of
        JStr s \<Rightarrow> Inr (''Short particulars: '' @ take 100 s @ ''...'')
      | _ \<Rightarrow> Inl TypeError)"

text \<open>The six assignments made for a charge that is not fully satisfied.\<close>

definition fill_charge :: "json \<Rightarrow> nat \<Rightarrow> string list list \<Rightarrow> exn + string list list" where
  "fill_charge charge index rows =
     then_do (getitem_str charge ''classification'') (\<lambda>classification.
     then_do (getitem_str classification ''description'') (\<lambda>description.
     then_do (py_concat ''Description: '' description) (\<lambda>s0.
     then_do (set_cell rows index 0 s0) (\<lambda>rows0.
     then_do (getitem_str charge ''created_on'') (\<lambda>created_on.
     then_do (py_concat ''Created: '' created_on) (\<lambda>s1.
     then_do (set_cell rows0 index 1 s1) (\<lambda>rows1.
     then_do (getitem_str charge ''delivered_on'') (\<lambda>delivered_on.
     then_do (py_concat ''Delivered: '' delivered_on) (\<lambda>s2.
     then_do (set_cell rows1 index 2 s2) (\<lambda>rows2.
     then_do (getitem_str charge ''status'') (\<lambda>status.
     then_do (py_concat ''Status: '' status) (\<lambda>s3.
     then_do (set_cell rows2 index 3 s3) (\<lambda>rows3.
     then_do (getitem_str charge ''persons_entitled'') (\<lambda>persons_entitled.
     then_do (getitem_int persons_entitled 0) (\<lambda>person.
     then_do (getitem_str person ''name'') (\<lambda>name.
     then_do (py_concat ''Persons entitled: '' name) (\<lambda>s4.
     then_do (set_cell rows3 index 4 s4) (\<lambda>rows4.
     then_do (getitem_str charge ''particulars'') (\<lambda>particulars.
     then_do (py_in ''description'' particulars) (\<lambda>present.
       if present
       then then_do (getitem_str particulars ''description'') (\<lambda>d.
            then_do (short_particulars d) (\<lambda>s5.
              set_cell rows4 index 5 s5))
       else set_cell rows4 index 5 ''[No Result]''))))))))))))))))))))"

text \<open>The second loop, which leaves at \<open>break\<close> once every counted row is filled.\<close>

fun charges_loop :: "json list \<Rightarrow> nat \<Rightarrow> nat \<Rightarrow> string list list \<Rightarrow> exn + string list list" where
  "charges_loop [] index requiredLength rows = Inr rows"
| "charges_loop (charge # rest) index requiredLength rows =
     then_do (getitem_str charge ''status'') (\<lambda>status.
       if status \<noteq> JStr ''fully-satisfied''
       then then_do (fill_charge charge index rows) (\<lambda>rows'.
              if index + 1 = requiredLength then Inr rows'
              else charges_loop rest (index + 1) requiredLength rows')
       else charges_loop rest index requiredLength rows)"

definition charges_of :: "json \<Rightarrow> exn + string list list" where
  "charges_of charges =
     then_do (getitem_str charges ''items'') (\<lambda>items.
     then_do (py_iter items) (\<lambda>charges_list.
     then_do (count_unsatisfied charges_list 0) (\<lambda>requiredLength.
       charges_loop charges_list 0 requiredLength
         (replicate requiredLength (replicate 6 '''')))))"

definition get_company_charges ::
  "pylib \<Rightarrow> registry \<Rightarrow> client \<Rightarrow> string \<Rightarrow> world \<Rightarrow> (exn + string list list) \<times> client \<times> world" where
  "get_company_charges lib net c charges_path w =
     (case query_ch_api lib net c root_url (charges_path @ page_suffix) w of
        (Inl e, c1, w1) \<Rightarrow> (Inl e, c1, w1)
      | (Inr charges, c1, w1) \<Rightarrow> (charges_of charges, c1, w1))"

section \<open>The batch runner: CompaniesHouseRead\<close>

text \<open>
  A row of the data frame: the columns the program reads or writes, in the order Company
  Number, Company Name, Jurisdiction, Type (\<open>ctype\<close>), Registered Office Address,
  Directors, Charges, Insolvency. \<open>None\<close> is a cell without a value (NaN, or a column not
  created yet).
\<close>

record row =
  company_number :: "string option"
  company_name :: "string option"
  jurisdiction :: "string option"
  ctype :: "string option"
  registered_office_address :: "string option"
  directors :: "string option"
  charges :: "string option"
  insolvency :: "string option"

text \<open>The three flags for supplemental data.\<close>

record config =
  getOfficers :: bool
  getCharges :: bool
  getInsolvency :: bool

text \<open>The flags as the script sets them.\<close>

definition script_config :: config where
  "script_config = \<lparr>getOfficers = False, getCharges = False, getInsolvency = True\<rparr>"

definition newline :: string where
  "newline = [CHR 0x0A]"

text \<open>\<open>str(row["Company Number"])\<close>: an empty cell reads as \<open>"nan"\<close>.\<close>

definition str_cell :: "string option \<Rightarrow> string" where
  "str_cell x = (case x of None \<Rightarrow> ''nan'' | Some s \<Rightarrow> s)"

text \<open>
  One \<open>if key in ...: address += sep + str(...)\<close> statement of the address block.
\<close>

definition add_component :: "pylib \<Rightarrow> json \<Rightarrow> string \<Rightarrow> string \<Rightarrow> string \<Rightarrow> exn + string" where
  "add_component lib company_profile k sep address =
     then_do (getitem_str company_profile ''registered_office_address'') (\<lambda>roa.
     then_do (py_in k roa) (\<lambda>present.
       if present
       then then_do (getitem_str roa k) (\<lambda>v. Inr (address @ sep @ py_str lib v))
       else Inr address))"

definition address_string :: "pylib \<Rightarrow> json \<Rightarrow> exn + string" where
  "address_string lib company_profile =
     then_do (add_component lib company_profile ''address_line_1'' '''' '''') (\<lambda>a1.
     then_do (add_component lib company_profile ''address_line_2'' '', '' a1) (\<lambda>a2.
     then_do (add_component lib company_profile ''locality'' '', '' a2) (\<lambda>a3.
     then_do (add_component lib company_profile ''region'' '', '' a3) (\<lambda>a4.
     then_do (add_component lib company_profile ''postal_code'' '', '' a4) (\<lambda>a5.
       add_component lib company_profile ''country'' '', '' a5)))))"

text \<open>The \<open>else\<close> branch for a profile that is not empty: name, jurisdiction, type, address.\<close>

definition profile_step :: "pylib \<Rightarrow> json \<Rightarrow> row \<Rightarrow> exn + row" where
  "profile_step lib company_profile r =
     then_do (getitem_str company_profile ''company_name'') (\<lambda>name.
     then_do (getitem_str company_profile ''jurisdiction'') (\<lambda>jur.
     then_do (getitem_str company_profile ''type'') (\<lambda>ty.
     then_do (address_string lib company_profile) (\<lambda>address.
       Inr (r\<lparr>company_name := Some (py_str lib name),
              jurisdiction := Some (str_title lib (py_str lib jur)),
              ctype := Some (str_upper lib (py_str lib ty)),
              registered_office_address := Some address\<rparr>)))))"

text \<open>
  How a block of the loop body ends: with \<open>continue\<close> (the rest of the body is skipped) or by
  falling through to the next block.
\<close>

datatype flow = Continue row | Proceed row

text \<open>The \<open>while\<close> loop that joins the directors' names.\<close>

function directors_string_loop :: "json list \<Rightarrow> nat \<Rightarrow> string \<Rightarrow> exn + string" where
  "directors_string_loop ds director_index directors_string =
     (if director_index < length ds
      then (case ds ! director_index of
              JStr s \<Rightarrow> directors_string_loop ds (director_index + 1) (directors_string @ s @ '' | '')
            | _ \<Rightarrow> Inl TypeError)
      else Inr directors_string)"
  by pat_completeness auto
termination
  by (relation "measure (\<lambda>(ds, i, s). length ds - i)") auto

declare directors_string_loop.simps [simp del]

definition officers_step ::
  "pylib \<Rightarrow> config \<Rightarrow> registry \<Rightarrow> json \<Rightarrow> row \<Rightarrow> client \<Rightarrow> world \<Rightarrow> (exn + flow) \<times> client \<times> world" where
  "officers_step lib cfg net company_profile r c w =
     (if getOfficers cfg then
        (case then_do (getitem_str company_profile ''links'') (\<lambda>links.
              then_do (py_in ''officers'' links) (\<lambda>present. Inr (links, present))) of
           Inl e \<Rightarrow> (Inl e, c, w)
         | Inr (links, present) \<Rightarrow>
             if \<not> present then (Inr (Continue (r\<lparr>directors := Some ''[No Directors]''\<rparr>)), c, w)
             else
               (case getitem_str links ''officers'' of
                  Inl e \<Rightarrow> (Inl e, c, w)
                | Inr path \<Rightarrow>
                    (case get_company_directors lib net c (py_str lib path) w of
                       (Inl e, c1, w1) \<Rightarrow> (Inl e, c1, w1)
                     | (Inr ds, c1, w1) \<Rightarrow>
                         (case directors_string_loop ds 0 '''' of
                            Inl e \<Rightarrow> (Inl e, c1, w1)
                          | Inr directors_string \<Rightarrow>
                              (Inr (Proceed (r\<lparr>directors := Some directors_string\<rparr>)), c1, w1)))))
      else (Inr (Proceed r), c, w))"

text \<open>
  The two nested \<open>while\<close> loops that render the charges. The rows are read at
  \<open>chargeIndex - 1\<close> with \<open>1 \<le> chargeIndex \<le> len(charges)\<close>; the inner bound is
  \<open>len(charges[0])\<close>.
\<close>

function fields_loop :: "string list \<Rightarrow> nat \<Rightarrow> nat \<Rightarrow> string \<Rightarrow> exn + string" where
  "fields_loop charge fieldIndex n charges_string =
     (if fieldIndex < n
      then (if fieldIndex < length charge
            then fields_loop charge (fieldIndex + 1) n (charges_string @ charge ! fieldIndex @ newline)
            else Inl IndexError)
      else Inr charges_string)"
  by pat_completeness auto
termination
  by (relation "measure (\<lambda>(ch, i, n, s). n - i)") auto

declare fields_loop.simps [simp del]

function charges_string_loop :: "string list list \<Rightarrow> nat \<Rightarrow> string \<Rightarrow> exn + string" where
  "charges_string_loop chs chargeIndex charges_string =
     (if chargeIndex < length chs + 1
      then (case fields_loop (chs ! (chargeIndex - 1)) 0 (length (chs ! 0))
                   (charges_string @ str_nat chargeIndex @ '':'' @ newline) of
              Inl e \<Rightarrow> Inl e
            | Inr s \<Rightarrow> charges_string_loop chs (chargeIndex + 1) (s @ newline))
      else Inr charges_string)"
  by pat_completeness auto
termination
  by (relation "measure (\<lambda>(chs, i, s). length chs + 1 - i)") auto

declare charges_string_loop.simps [simp del]

definition charges_step ::
  "pylib \<Rightarrow> config \<Rightarrow> registry \<Rightarrow> json \<Rightarrow> row \<Rightarrow> client \<Rightarrow> world \<Rightarrow> (exn + flow) \<times> client \<times> world" where
  "charges_step lib cfg net company_profile r c w =
     (if getCharges cfg then
        (case then_do (getitem_str company_profile ''links'') (\<lambda>links.
              then_do (py_in ''charges'' links) (\<lambda>present. Inr (links, present))) of
           Inl e \<Rightarrow> (Inl e, c, w)
         | Inr (links, present) \<Rightarrow>
             if \<not> present then (Inr (Continue (r\<lparr>charges := Some ''[No Charges]''\<rparr>)), c, w)
             else
               (case getitem_str links ''charges'' of
                  Inl e \<Rightarrow> (Inl e, c, w)
                | Inr path \<Rightarrow>
                    (case get_company_charges lib net c (py_str lib path) w of
                       (Inl e, c1, w1) \<Rightarrow> (Inl e, c1, w1)
                     | (Inr chs, c1, w1) \<Rightarrow>
                         (case charges_string_loop chs 1 '''' of
                            Inl e \<Rightarrow> (Inl e, c1, w1)
                          | Inr charges_string \<Rightarrow>
                              (Inr (Proceed (r\<lparr>charges := Some (str_strip lib charges_string)\<rparr>)),
                               c1, w1)))))
      else (Inr (Proceed r), c, w))"

text \<open>
  The insolvency block. The link tested is \<open>involvency\<close>; in the \<open>else\<close> branch the
  indicator is concatenated to a string for printing and no cell is assigned.
\<close>

definition insolvency_step :: "config \<Rightarrow> json \<Rightarrow> row \<Rightarrow> exn + flow" where
  "insolvency_step cfg company_profile r =
     (if getInsolvency cfg then
        then_do (getitem_str company_profile ''links'') (\<lambda>links.
        then_do (py_in ''involvency'' links) (\<lambda>present.
          if \<not> present then Inr (Continue (r\<lparr>insolvency := Some ''[No Insolvency Data]''\<rparr>))
          else
            then_do (getitem_str company_profile ''has_insolvency_history'') (\<lambda>hasInsolvencyHistory.
            then_do (py_concat ''has insolvency history: '' hasInsolvencyHistory) (\<lambda>printed.
              Inr (Proceed r)))))
      else Inr (Proceed r))"

text \<open>
  The body of the main loop for one row. An exception is not caught anywhere: it ends
  the program. Progress printing is left out, except where evaluating the printed
  expression can raise (the insolvency block).
\<close>

definition process_row ::
  "pylib \<Rightarrow> config \<Rightarrow> registry \<Rightarrow> row \<Rightarrow> client \<Rightarrow> world \<Rightarrow> (exn + row) \<times> client \<times> world" where
  "process_row lib cfg net r c w =
     (let number = str_cell (company_number r) in
      if number = ''nan'' then (Inr r, c, w)
      else
        (case get_company_profile lib net c number w of
           (Inl e, c1, w1) \<Rightarrow> (Inl e, c1, w1)
         | (Inr company_profile, c1, w1) \<Rightarrow>
             if company_profile = JObj [] then
               (Inr (r\<lparr>company_name := Some ''[No Result]'',
                       jurisdiction := Some ''[No Result]'',
                       ctype := Some ''[No Result]'',
                       registered_office_address := Some ''[No Result]''\<rparr>), c1, w1)
             else
               (case profile_step lib company_profile r of
                  Inl e \<Rightarrow> (Inl e, c1, w1)
                | Inr r1 \<Rightarrow>
                    (case officers_step lib cfg net company_profile r1 c1 w1 of
                       (Inl e, c2, w2) \<Rightarrow> (Inl e, c2, w2)
                     | (Inr (Continue r2), c2, w2) \<Rightarrow> (Inr r2, c2, w2)
                     | (Inr (Proceed r2), c2, w2) \<Rightarrow>
                         (case charges_step lib cfg net company_profile r2 c2 w2 of
                            (Inl e, c3, w3) \<Rightarrow> (Inl e, c3, w3)
                          | (Inr (Continue r3), c3, w3) \<Rightarrow> (Inr r3, c3, w3)
                          | (Inr (Proceed r3), c3, w3) \<Rightarrow>
                              (case insolvency_step cfg company_profile r3 of
                                 Inl e \<Rightarrow> (Inl e, c3, w3)
                               | Inr (Continue r4) \<Rightarrow> (Inr r4, c3, w3)
                               | Inr (Proceed r4) \<Rightarrow> (Inr r4, c3, w3)))))))"

text \<open>The main loop over the rows of the data frame, in order.\<close>

fun main_loop ::
  "pylib \<Rightarrow> config \<Rightarrow> registry \<Rightarrow> row list \<Rightarrow> client \<Rightarrow> world \<Rightarrow> (exn + row list) \<times> client \<times> world" where
  "main_loop lib cfg net [] c w = (Inr [], c, w)"
| "main_loop lib cfg net (r # rs) c w =
     (case process_row lib cfg net r c w of
        (Inl e, c1, w1) \<Rightarrow> (Inl e, c1, w1)
      | (Inr r', c1, w1) \<Rightarrow>
          (case main_loop lib cfg net rs c1 w1 of
             (Inl e, c2, w2) \<Rightarrow> (Inl e, c2, w2)
           | (Inr out, c2, w2) \<Rightarrow> (Inr (r' # out), c2, w2)))"

section \<open>Notions used to state the properties\<close>

text \<open>A value is a dictionary that has the key \<open>k\<close>: \<open>v[k]\<close> does not raise.\<close>

definition has_key :: "json \<Rightarrow> string \<Rightarrow> bool" where
  "has_key v k = (case getitem_str v k of Inl e \<Rightarrow> False | Inr x \<Rightarrow> True)"

text \<open>The test of both loops of \<open>get_company_charges\<close>: the status differs from \<open>"fully-satisfied"\<close>.\<close>

definition unsatisfied :: "json \<Rightarrow> bool" where
  "unsatisfied charge = (getitem_str charge ''status'' \<noteq> Inr (JStr ''fully-satisfied''))"


text \<open>
  The six fields \<open>get_company_charges\<close> writes for one charge: the row that \<open>fill_charge\<close>
  leaves in a table of one empty row.
\<close>

definition charge_fields :: "json \<Rightarrow> exn + string list" where
  "charge_fields charge =
     then_do (fill_charge charge 0 [replicate 6 ''''])
       (\<lambda>rows. case rows of [] \<Rightarrow> Inl IndexError | r # _ \<Rightarrow> Inr r)"


text \<open>
  What one address component adds to the address string: nothing when the key is absent,
  otherwise the separator and the value.
\<close>

definition component :: "pylib \<Rightarrow> (string \<times> json) list \<Rightarrow> string \<Rightarrow> string \<Rightarrow> string" where
  "component lib address k sep =
     (case map_of address k of None \<Rightarrow> '''' | Some v \<Rightarrow> sep @ py_str lib v)"

text \<open>The test of the main loop for a blank identifier.\<close>

definition blank_identifier :: "row \<Rightarrow> bool" where
  "blank_identifier r = (str_cell (company_number r) = ''nan'')"

text \<open>
  The send times in a log lie at least \<open>d\<close> apart, each from the one before it. A
  client and a world agree when the log of send times is spaced by the client's interval
  and the client's timestamp is the last send time (none before the first request).
\<close>

fun spaced :: "int \<Rightarrow> int list \<Rightarrow> bool" where
  "spaced d [] = True"
| "spaced d [t] = True"
| "spaced d (t1 # t2 # ts) = (t1 + d \<le> t2 \<and> spaced d (t2 # ts))"

definition throttled :: "client \<Rightarrow> world \<Rightarrow> bool" where
  "throttled c w =
     (spaced (time_between_requests c) (sent_at w) \<and>
      last_request_timestamp c =
        (if sent_at w = [] then None else Some (last (sent_at w))))"

section \<open>Test doubles and example data\<close>

text \<open>
  A library whose decoder yields a given document, a registry that answers every request
  with a given status code, and a world at time zero in which no time passes by itself.
\<close>

definition stub_lib :: "json \<Rightarrow> pylib" where
  "stub_lib doc =
     \<lparr>json_decode = (\<lambda>s. Inr doc), py_repr = (\<lambda>v. ''?''),
      str_title = (\<lambda>s. s), str_upper = (\<lambda>s. s), str_strip = (\<lambda>s. s)\<rparr>"

definition stub_net :: "int \<Rightarrow> registry" where
  "stub_net code = (\<lambda>log url. Inr \<lparr>status_code = code, response_text = ''body''\<rparr>)"

text \<open>A registry that cannot be reached: every request raises a transport exception.\<close>

definition failing_net :: registry where
  "failing_net = (\<lambda>log url. Inl ConnectionError)"

definition start_world :: world where
  "start_world = \<lparr>clock = 0, pending = [], sleeps = [], sent = [], sent_at = []\<rparr>"

definition example_charge :: "string \<Rightarrow> (string \<times> json) list \<Rightarrow> json" where
  "example_charge status particulars =
     JObj [(''classification'', JObj [(''description'', JStr ''A registered charge'')]),
           (''created_on'', JStr ''2019-01-02''),
           (''delivered_on'', JStr ''2019-01-05''),
           (''status'', JStr status),
           (''persons_entitled'',
              JArr [JObj [(''name'', JStr ''First Bank'')], JObj [(''name'', JStr ''Second Bank'')]]),
           (''particulars'', JObj particulars)]"

definition example_charges :: json where
  "example_charges =
     JObj [(''items'',
        JArr [example_charge ''fully-satisfied'' [],
              example_charge ''outstanding'' [(''description'', JStr ''Land at 1 Main St'')],
              example_charge ''part-satisfied'' []])]"





text \<open>A world in which some time passes before every clock reading and during every request.\<close>

definition ticking_world :: world where
  "ticking_world =
     \<lparr>clock = 0, pending = [5, 100000, 7, 11, 13], sleeps = [], sent = [], sent_at = []\<rparr>"

text \<open>A row of the input file that has only its company number.\<close>

definition empty_row :: "string option \<Rightarrow> row" where
  "empty_row number =
     \<lparr>company_number = number, company_name = None, jurisdiction = None, ctype = None,
      registered_office_address = None, directors = None, charges = None, insolvency = None\<rparr>"

text \<open>
  A company profile with a given registered office address, links and insolvency indicator;
  two more configurations of the three flags; the row of company 00445790 once its profile (with an
  empty address) is filled in.
\<close>

definition example_profile :: "(string \<times> json) list \<Rightarrow> (string \<times> json) list \<Rightarrow> json \<Rightarrow> json" where
  "example_profile address links indicator =
     JObj [(''company_name'', JStr ''ACME LTD''),
           (''company_number'', JStr ''00445790''),
           (''jurisdiction'', JStr ''england-wales''),
           (''type'', JStr ''ltd''),
           (''registered_office_address'', JObj address),
           (''has_insolvency_history'', indicator),
           (''links'', JObj links)]"

definition all_flags :: config where
  "all_flags = \<lparr>getOfficers = True, getCharges = True, getInsolvency = True\<rparr>"

definition without_officers :: config where
  "without_officers = \<lparr>getOfficers = False, getCharges = True, getInsolvency = True\<rparr>"

definition example_row :: row where
  "example_row =
     \<lparr>company_number = Some ''00445790'', company_name = Some ''ACME LTD'',
      jurisdiction = Some ''england-wales'', ctype = Some ''ltd'',
      registered_office_address = Some '''', directors = None, charges = None,
      insolvency = None\<rparr>"

section \<open>Auxiliary facts\<close>

lemma then_do_split:
  "P (then_do m f) = ((\<forall>e. m = Inl e \<longrightarrow> P (Inl e)) \<and> (\<forall>x. m = Inr x \<longrightarrow> P (f x)))"
  by (cases m) auto

lemma set_cell_at:
  "set_cell (done @ r # rest) (length done) k v =
     (if k < length r then Inr (done @ r[k := v] # rest) else Inl IndexError)"
  by (simp add: set_cell_def nth_append list_update_append)

lemma set_cell_single:
  "set_cell [r] 0 k v = (if k < length r then Inr [r[k := v]] else Inl IndexError)"
  by (simp add: set_cell_def)

lemma then_do_Inr_iff:
  "then_do m f = Inr y \<longleftrightarrow> (\<exists>x. m = Inr x \<and> f x = Inr y)"
  by (cases m) auto

lemma fill_charge_at:
  assumes "blank = replicate 6 ''''"
  shows "fill_charge charge (length done) (done @ blank # rest) =
           then_do (charge_fields charge) (\<lambda>fs. Inr (done @ fs # rest))"
  unfolding assms
  by (simp add: charge_fields_def fill_charge_def set_cell_at set_cell_single
        split: then_do_split)

lemma count_unsatisfied_eq:
  "list_all (\<lambda>ch. has_key ch ''status'') xs \<Longrightarrow>
     count_unsatisfied xs n = Inr (n + length (filter unsatisfied xs))"
  by (induction xs arbitrary: n)
     (auto simp: has_key_def unsatisfied_def split: sum.splits)

lemma count_unsatisfied_status:
  "count_unsatisfied xs n = Inr m \<Longrightarrow> list_all (\<lambda>ch. has_key ch ''status'') xs"
  by (induction xs arbitrary: n)
     (auto simp: has_key_def then_do_Inr_iff split: if_splits)

lemma map_Inr_eq_append_Inl:
  "map Inr out \<noteq> map Inr done @ Inl e # zs"
  by (auto simp: map_eq_append_conv Cons_eq_map_conv)

lemma map_Inr_eq_iff:
  "map Inr xs = map Inr ys @ [Inr y] \<longleftrightarrow> xs = ys @ [y]"
  using inj_map_eq_map [OF inj_Inr, of xs "ys @ [y]"] by simp

lemma charges_loop_iff:
  assumes blank: "blank = replicate 6 ''''"
    and "list_all (\<lambda>ch. has_key ch ''status'') xs"
    and "length done + length (filter unsatisfied xs) = n"
  shows "charges_loop xs (length done) n (done @ replicate (n - length done) blank) = Inr out
           \<longleftrightarrow> map Inr out = map Inr done @ map charge_fields (filter unsatisfied xs)"
  using assms(2,3)
proof (induction xs arbitrary: "done")
  case Nil
  then show ?case by (auto simp: inj_map_eq_map)
next
  case (Cons ch rest)
  note at = fill_charge_at [OF blank]
  from Cons.prems(1) obtain st where st: "getitem_str ch ''status'' = Inr st"
    by (auto simp: has_key_def split: sum.splits)
  from Cons.prems(1) have rest_ok: "list_all (\<lambda>ch. has_key ch ''status'') rest" by simp
  show ?case
  proof (cases "st = JStr ''fully-satisfied''")
    case True
    with st have "\<not> unsatisfied ch" by (simp add: unsatisfied_def)
    with st True Cons.prems rest_ok show ?thesis
      using Cons.IH [of "done"] by simp
  next
    case False
    with st have un: "unsatisfied ch" by (simp add: unsatisfied_def)
    with Cons.prems(2) have n: "n - length done = Suc (length (filter unsatisfied rest))"
      by auto
    have rows: "done @ replicate (n - length done) blank
                  = done @ blank # replicate (length (filter unsatisfied rest)) blank"
      by (simp add: n)
    show ?thesis
    proof (cases "charge_fields ch")
      case (Inl e)
      with st False un show ?thesis
        unfolding rows by (simp add: at map_Inr_eq_append_Inl)
    next
      case (Inr fs)
      show ?thesis
      proof (cases "length done + 1 = n")
        case True
        with n have "filter unsatisfied rest = []" by auto
        with st False un Inr True show ?thesis
          unfolding rows by (auto simp: at map_Inr_eq_iff)
      next
        case neq: False
        have len: "length (done @ [fs]) + length (filter unsatisfied rest) = n"
          using Cons.prems(2) un by simp
        have "replicate (length (filter unsatisfied rest)) blank
                = replicate (n - length (done @ [fs])) blank"
          using len by auto
        with st False un Inr neq show ?thesis
          unfolding rows using Cons.IH [OF rest_ok len] by (simp add: at)
      qed
    qed
  qed
qed

lemma charges_of_iff:
  assumes "getitem_str resp ''items'' = Inr (JArr items)"
  shows "charges_of resp = Inr rows \<longleftrightarrow>
           list_all (\<lambda>ch. has_key ch ''status'') items \<and>
           map Inr rows = map charge_fields (filter unsatisfied items)"
proof (cases "list_all (\<lambda>ch. has_key ch ''status'') items")
  case True
  then show ?thesis
    using assms charges_loop_iff [OF refl True, of "[]" "length (filter unsatisfied items)" rows]
    by (simp add: charges_of_def py_iter_def count_unsatisfied_eq)
next
  case False
  then show ?thesis
    using assms count_unsatisfied_status [of items 0]
    by (auto simp: charges_of_def py_iter_def then_do_Inr_iff)
qed

lemma sent_rate_limiting: "sent (snd (rate_limiting c w)) = sent w"
  by (simp add: rate_limiting_def now_def elapse_def sleep_def Let_def
        split: option.splits list.splits prod.splits)

lemma query_ch_api_result:
  assumes "net (sent w) (url_format url q) = Inr resp"
  shows "\<exists>c1 w1. query_ch_api lib net c url q w =
           ((if status_code resp = 200 then json_decode lib (response_text resp) else Inr (JObj [])),
            c1, w1)"
proof -
  obtain c1 w1 where rl: "rate_limiting c w = (c1, w1)" by (cases "rate_limiting c w")
  with sent_rate_limiting [of c w] have "sent w1 = sent w" by simp
  with rl assms show ?thesis by (simp add: query_ch_api_def Let_def)
qed




text \<open>The rate limiter.\<close>

lemma rate_limiting_first:
  assumes "last_request_timestamp c = None" and "rate_limiting c w = (c', w')"
  shows "sleeps w' = sleeps w \<and> last_request_timestamp c' = Some (clock w')"
  using assms
  by (auto simp: rate_limiting_def now_def elapse_def Let_def split: list.splits)

lemma rate_limiting_later:
  assumes "last_request_timestamp c = Some t0" and "rate_limiting c w = (c', w')"
  shows "last_request_timestamp c' = Some (clock w') \<and> t0 + time_between_requests c \<le> clock w'
         \<and> time_between_requests c' = time_between_requests c"
  using assms
  by (auto simp: rate_limiting_def now_def elapse_def sleep_def Let_def split: list.splits)

lemma query_ch_api_client:
  "query_ch_api lib net c url q w = (r, c', w') \<Longrightarrow> c' = fst (rate_limiting c w)"
  by (auto simp: query_ch_api_def Let_def split: prod.splits sum.splits if_splits)

text \<open>The main loop keeps the company numbers and leaves blank rows alone.\<close>

lemma profile_step_number:
  "profile_step lib p r = Inr r1 \<Longrightarrow> company_number r1 = company_number r"
  by (auto simp: profile_step_def then_do_Inr_iff)

lemma officers_step_number:
  "officers_step lib cfg net p r c w = (Inr f, c1, w1) \<Longrightarrow>
     company_number (case f of Continue x \<Rightarrow> x | Proceed x \<Rightarrow> x) = company_number r"
  by (auto simp: officers_step_def split: if_splits sum.splits prod.splits)

lemma charges_step_number:
  "charges_step lib cfg net p r c w = (Inr f, c1, w1) \<Longrightarrow>
     company_number (case f of Continue x \<Rightarrow> x | Proceed x \<Rightarrow> x) = company_number r"
  by (auto simp: charges_step_def split: if_splits sum.splits prod.splits)

lemma insolvency_step_number:
  "insolvency_step cfg p r = Inr f \<Longrightarrow>
     company_number (case f of Continue x \<Rightarrow> x | Proceed x \<Rightarrow> x) = company_number r"
  by (auto simp: insolvency_step_def then_do_Inr_iff split: if_splits)

lemma process_row_number:
  assumes "process_row lib cfg net r c w = (Inr r', c', w')"
  shows "company_number r' = company_number r"
proof (cases "blank_identifier r")
  case True
  with assms show ?thesis by (simp add: process_row_def blank_identifier_def)
next
  case False
  obtain res c1 w1 where gp:
    "get_company_profile lib net c (str_cell (company_number r)) w = (res, c1, w1)"
    by (cases "get_company_profile lib net c (str_cell (company_number r)) w") auto
  show ?thesis
  proof (cases res)
    case (Inl e)
    with assms False gp show ?thesis by (simp add: process_row_def blank_identifier_def)
  next
    case (Inr p)
    show ?thesis
    proof (cases "p = JObj []")
      case True
      with assms False gp Inr show ?thesis by (auto simp: process_row_def blank_identifier_def)
    next
      case nonempty: False
      from assms False gp Inr nonempty obtain r1 where r1: "profile_step lib p r = Inr r1"
        by (cases "profile_step lib p r") (auto simp: process_row_def blank_identifier_def)
      obtain fo c2 w2 where os: "officers_step lib cfg net p r1 c1 w1 = (fo, c2, w2)"
        by (cases "officers_step lib cfg net p r1 c1 w1") auto
      from assms False gp Inr nonempty r1 os obtain f2 where f2: "fo = Inr f2"
        by (cases fo) (auto simp: process_row_def blank_identifier_def)
      note n2 = officers_step_number [OF os [unfolded f2]] profile_step_number [OF r1]
      show ?thesis
      proof (cases f2)
        case (Continue r2)
        with assms False gp Inr nonempty r1 os f2 n2 show ?thesis
          by (auto simp: process_row_def blank_identifier_def)
      next
        case (Proceed r2)
        obtain fc c3 w3 where cs: "charges_step lib cfg net p r2 c2 w2 = (fc, c3, w3)"
          by (cases "charges_step lib cfg net p r2 c2 w2") auto
        from assms False gp Inr nonempty r1 os f2 Proceed cs obtain f3 where f3: "fc = Inr f3"
          by (cases fc) (auto simp: process_row_def blank_identifier_def)
        note n3 = charges_step_number [OF cs [unfolded f3]]
        show ?thesis
        proof (cases f3)
          case (Continue r3)
          with assms False gp Inr nonempty r1 os f2 Proceed cs f3 n2 n3 show ?thesis
            by (auto simp: process_row_def blank_identifier_def)
        next
          case p3: (Proceed r3)
          from assms False gp Inr nonempty r1 os f2 Proceed cs f3 p3
          obtain f4 where f4: "insolvency_step cfg p r3 = Inr f4"
            by (cases "insolvency_step cfg p r3") (auto simp: process_row_def blank_identifier_def)
          note n4 = insolvency_step_number [OF f4]
          from assms False gp Inr nonempty r1 os f2 Proceed cs f3 p3 f4 n2 n3 n4 show ?thesis
            by (cases f4) (auto simp: process_row_def blank_identifier_def)
        qed
      qed
    qed
  qed
qed

lemma process_row_blank:
  "blank_identifier r \<Longrightarrow> process_row lib cfg net r c w = (Inr r, c, w)"
  by (simp add: process_row_def blank_identifier_def)

lemma main_loop_rows:
  "main_loop lib cfg net df c w = (Inr out, c', w') \<Longrightarrow>
     length out = length df \<and> map company_number out = map company_number df \<and>
     (\<forall>i < length df. blank_identifier (df ! i) \<longrightarrow> out ! i = df ! i)"
proof (induction df arbitrary: c w out)
  case Nil
  then show ?case by simp
next
  case (Cons r rs)
  obtain res c1 w1 where pr: "process_row lib cfg net r c w = (res, c1, w1)"
    by (cases "process_row lib cfg net r c w") auto
  with Cons.prems obtain r' where r': "res = Inr r'" by (cases res) auto
  obtain res2 c2 w2 where ml: "main_loop lib cfg net rs c1 w1 = (res2, c2, w2)"
    by (cases "main_loop lib cfg net rs c1 w1") auto
  with Cons.prems pr r' obtain out' where out': "res2 = Inr out'" by (cases res2) auto
  from Cons.prems pr r' ml out' have out: "out = r' # out'" and st: "c' = c2" "w' = w2" by auto
  note ih = Cons.IH [OF ml [unfolded out' st [symmetric]]]
  have num: "company_number r' = company_number r"
    using process_row_number [OF pr [unfolded r']] .
  have same: "blank_identifier r \<Longrightarrow> r' = r"
    using process_row_blank [of r lib cfg net c w] pr r' by simp
  show ?case
    unfolding out using ih num same
    by (auto simp: nth_Cons split: nat.splits)
qed

lemma two_rows_eval:
  "fst (main_loop (stub_lib JNull) script_config (stub_net 404)
          [empty_row None, empty_row (Some ''000'')] (new_client ''k'') start_world) =
     Inr [empty_row None,
          (empty_row (Some ''000''))
            \<lparr>company_name := Some ''[No Result]'', jurisdiction := Some ''[No Result]'',
             ctype := Some ''[No Result]'', registered_office_address := Some ''[No Result]''\<rparr>]"
  by (simp add: process_row_def get_company_profile_def query_ch_api_def rate_limiting_def
        now_def elapse_def Let_def new_client_def start_world_def stub_net_def empty_row_def
        str_cell_def)

text \<open>The address string for an address that is a dictionary.\<close>

lemma add_component_dict:
  assumes "getitem_str p ''registered_office_address'' = Inr (JObj address)"
  shows "add_component lib p k sep acc = Inr (acc @ component lib address k sep)"
proof (cases "map_of address k")
  case None
  then have "k \<notin> fst ` set address" by (simp add: map_of_eq_None_iff)
  with assms None show ?thesis
    by (simp add: add_component_def py_in_def component_def)
next
  case (Some v)
  then have "k \<in> fst ` set address" by (metis map_of_SomeD fst_conv image_eqI)
  with assms Some show ?thesis
    by (simp add: add_component_def py_in_def component_def getitem_str_def)
qed

lemma address_string_dict:
  assumes "getitem_str p ''registered_office_address'' = Inr (JObj address)"
  shows "address_string lib p =
           Inr (component lib address ''address_line_1'' '''' @
                component lib address ''address_line_2'' '', '' @
                component lib address ''locality'' '', '' @
                component lib address ''region'' '', '' @
                component lib address ''postal_code'' '', '' @
                component lib address ''country'' '', '')"
  by (simp add: address_string_def add_component_dict [OF assms])

text \<open>The loop body after a profile that is not empty.\<close>

lemma process_row_nonempty:
  assumes "\<not> blank_identifier r"
    and "get_company_profile lib net c (str_cell (company_number r)) w = (Inr p, c1, w1)"
    and "p \<noteq> JObj []"
    and "profile_step lib p r = Inr r1"
  shows "process_row lib cfg net r c w =
           (case officers_step lib cfg net p r1 c1 w1 of
              (Inl e, c2, w2) \<Rightarrow> (Inl e, c2, w2)
            | (Inr (Continue r2), c2, w2) \<Rightarrow> (Inr r2, c2, w2)
            | (Inr (Proceed r2), c2, w2) \<Rightarrow>
                (case charges_step lib cfg net p r2 c2 w2 of
                   (Inl e, c3, w3) \<Rightarrow> (Inl e, c3, w3)
                 | (Inr (Continue r3), c3, w3) \<Rightarrow> (Inr r3, c3, w3)
                 | (Inr (Proceed r3), c3, w3) \<Rightarrow>
                     (case insolvency_step cfg p r3 of
                        Inl e \<Rightarrow> (Inl e, c3, w3)
                      | Inr (Continue r4) \<Rightarrow> (Inr r4, c3, w3)
                      | Inr (Proceed r4) \<Rightarrow> (Inr r4, c3, w3))))"
  using assms by (simp add: process_row_def blank_identifier_def)

lemma profile_step_frame:
  "profile_step lib p r = Inr r1 \<Longrightarrow>
     directors r1 = directors r \<and> charges r1 = charges r \<and> insolvency r1 = insolvency r"
  by (auto simp: profile_step_def then_do_Inr_iff)

lemma officers_step_frame:
  "officers_step lib cfg net p r c w = (Inr (Proceed r2), c2, w2) \<Longrightarrow>
     charges r2 = charges r \<and> insolvency r2 = insolvency r"
  by (auto simp: officers_step_def split: if_splits sum.splits prod.splits)

lemma stub_fetch:
  "get_company_profile (stub_lib doc) (stub_net 200) (new_client k) number start_world =
     (Inr doc, (new_client k)\<lparr>last_request_timestamp := Some 0\<rparr>,
      start_world\<lparr>sent := [company_url @ number], sent_at := [0]\<rparr>)"
  by (simp add: get_company_profile_def query_ch_api_def rate_limiting_def now_def elapse_def
        Let_def new_client_def start_world_def stub_net_def stub_lib_def url_format_def)

lemma example_profile_step:
  "profile_step (stub_lib doc) (example_profile [] links indicator) (empty_row (Some ''00445790''))
     = Inr example_row"
proof -
  have a: "getitem_str (example_profile [] links indicator) ''registered_office_address'' =
      Inr (JObj [])"
    by (simp add: example_profile_def getitem_str_def)
  show ?thesis
    by (simp add: profile_step_def address_string_dict [OF a] component_def py_str_def)
       (simp add: example_profile_def getitem_str_def stub_lib_def example_row_def empty_row_def)
qed

lemma example_process_row:
  "process_row (stub_lib (example_profile [] links indicator)) cfg (stub_net 200)
     (empty_row (Some ''00445790'')) (new_client ''k'') start_world =
   (case officers_step (stub_lib (example_profile [] links indicator)) cfg (stub_net 200)
           (example_profile [] links indicator) example_row
           ((new_client ''k'')\<lparr>last_request_timestamp := Some 0\<rparr>)
           (start_world\<lparr>sent := [company_url @ ''00445790''], sent_at := [0]\<rparr>) of
      (Inl e, c2, w2) \<Rightarrow> (Inl e, c2, w2)
    | (Inr (Continue r2), c2, w2) \<Rightarrow> (Inr r2, c2, w2)
    | (Inr (Proceed r2), c2, w2) \<Rightarrow>
        (case charges_step (stub_lib (example_profile [] links indicator)) cfg (stub_net 200)
                (example_profile [] links indicator) r2 c2 w2 of
           (Inl e, c3, w3) \<Rightarrow> (Inl e, c3, w3)
         | (Inr (Continue r3), c3, w3) \<Rightarrow> (Inr r3, c3, w3)
         | (Inr (Proceed r3), c3, w3) \<Rightarrow>
             (case insolvency_step cfg (example_profile [] links indicator) r3 of
                Inl e \<Rightarrow> (Inl e, c3, w3)
              | Inr (Continue r4) \<Rightarrow> (Inr r4, c3, w3)
              | Inr (Proceed r4) \<Rightarrow> (Inr r4, c3, w3))))"
proof -
  have nb: "\<not> blank_identifier (empty_row (Some ''00445790''))"
    by (simp add: blank_identifier_def empty_row_def str_cell_def)
  have gp: "get_company_profile (stub_lib (example_profile [] links indicator)) (stub_net 200)
      (new_client ''k'') (str_cell (company_number (empty_row (Some ''00445790'')))) start_world =
     (Inr (example_profile [] links indicator),
      (new_client ''k'')\<lparr>last_request_timestamp := Some 0\<rparr>,
      start_world\<lparr>sent := [company_url @ ''00445790''], sent_at := [0]\<rparr>)"
    by (simp add: stub_fetch empty_row_def str_cell_def)
  have ne: "example_profile [] links indicator \<noteq> JObj []"
    by (simp add: example_profile_def)
  show ?thesis
    by (rule process_row_nonempty [OF nb gp ne example_profile_step])
qed

text \<open>Send times: every request leaves at the timestamp the limiter has just stored.\<close>

lemma spaced_snoc:
  "spaced d (ts @ [t]) \<longleftrightarrow> spaced d ts \<and> (ts = [] \<or> last ts + d \<le> t)"
  by (induction d ts rule: spaced.induct) auto

lemma query_ch_api_send:
  assumes "query_ch_api lib net c url q w = (r, c', w')"
  shows "\<exists>w1. rate_limiting c w = (c', w1) \<and> sent_at w' = sent_at w @ [clock w1] \<and>
              sleeps w' = sleeps w1 \<and> sent_at w1 = sent_at w"
proof -
  obtain c1 w1 where rl: "rate_limiting c w = (c1, w1)" by (cases "rate_limiting c w")
  have sa: "sent_at w1 = sent_at w"
    using rl
    by (auto simp: rate_limiting_def now_def elapse_def sleep_def Let_def
          split: option.splits list.splits)
  from assms rl sa show ?thesis
    by (auto simp: query_ch_api_def Let_def elapse_def split: sum.splits if_splits list.splits)
qed

lemma rate_limiting_interval_tbr:
  "rate_limiting c w = (c', w') \<Longrightarrow> time_between_requests c' = time_between_requests c"
  by (auto simp: rate_limiting_def now_def Let_def split: option.splits prod.splits)

lemma query_ch_api_throttled:
  assumes "throttled c w" and "query_ch_api lib net c url q w = (r, c', w')"
  shows "throttled c' w'"
proof -
  from query_ch_api_send [OF assms(2)] obtain w1 where
    rl: "rate_limiting c w = (c', w1)" and sa: "sent_at w' = sent_at w @ [clock w1]" by blast
  note tbr = rate_limiting_interval_tbr [OF rl]
  show ?thesis
  proof (cases "last_request_timestamp c")
    case None
    with assms(1) have "sent_at w = []" by (auto simp: throttled_def split: if_splits)
    with rate_limiting_first [OF None rl] sa tbr show ?thesis
      by (simp add: throttled_def)
  next
    case (Some t0)
    with rate_limiting_later [OF Some rl] assms(1) sa tbr show ?thesis
      by (auto simp: throttled_def spaced_snoc split: if_splits)
  qed
qed


lemma get_company_directors_throttled:
  "throttled c w \<Longrightarrow> get_company_directors lib net c path w = (r, c', w') \<Longrightarrow> throttled c' w'"
  by (auto simp: get_company_directors_def split: prod.splits sum.splits
        dest: query_ch_api_throttled)

lemma get_company_charges_throttled:
  "throttled c w \<Longrightarrow> get_company_charges lib net c path w = (r, c', w') \<Longrightarrow> throttled c' w'"
  by (auto simp: get_company_charges_def split: prod.splits sum.splits
        dest: query_ch_api_throttled)

lemma officers_step_throttled:
  "throttled c w \<Longrightarrow> officers_step lib cfg net p r c w = (res, c', w') \<Longrightarrow> throttled c' w'"
  by (auto simp: officers_step_def split: if_splits prod.splits sum.splits
        dest: get_company_directors_throttled)

lemma charges_step_throttled:
  "throttled c w \<Longrightarrow> charges_step lib cfg net p r c w = (res, c', w') \<Longrightarrow> throttled c' w'"
  by (auto simp: charges_step_def split: if_splits prod.splits sum.splits
        dest: get_company_charges_throttled)

lemma process_row_throttled:
  assumes "throttled c w" and "process_row lib cfg net r c w = (res, c', w')"
  shows "throttled c' w'"
proof (cases "blank_identifier r")
  case True
  with assms show ?thesis by (simp add: process_row_def blank_identifier_def)
next
  case False
  obtain rp c1 w1 where gp:
    "get_company_profile lib net c (str_cell (company_number r)) w = (rp, c1, w1)"
    by (cases "get_company_profile lib net c (str_cell (company_number r)) w") auto
  then have t1: "throttled c1 w1"
    using assms(1) by (auto simp: get_company_profile_def dest: query_ch_api_throttled)
  show ?thesis
  proof (cases rp)
    case (Inl e)
    with assms(2) False gp t1 show ?thesis
      by (simp add: process_row_def blank_identifier_def)
  next
    case (Inr p)
    show ?thesis
    proof (cases "p = JObj [] \<or> (\<exists>e. profile_step lib p r = Inl e)")
      case True
      with assms(2) False gp t1 Inr show ?thesis
        by (auto simp: process_row_def blank_identifier_def split: if_splits)
    next
      case ok: False
      then obtain r1 where r1: "profile_step lib p r = Inr r1" and ne: "p \<noteq> JObj []"
        by (cases "profile_step lib p r") auto
      obtain fo c2 w2 where os: "officers_step lib cfg net p r1 c1 w1 = (fo, c2, w2)"
        by (cases "officers_step lib cfg net p r1 c1 w1") auto
      note t2 = officers_step_throttled [OF t1 os]
      note unfold = process_row_nonempty [OF False gp [unfolded Inr] ne r1, of cfg]
      show ?thesis
      proof (cases "\<exists>r2. fo = Inr (Proceed r2)")
        case False
        with assms(2) os t2 show ?thesis
          unfolding unfold by (cases fo) (auto split: flow.splits)
      next
        case True
        then obtain r2 where fo: "fo = Inr (Proceed r2)" by blast
        obtain fc c3 w3 where cs: "charges_step lib cfg net p r2 c2 w2 = (fc, c3, w3)"
          by (cases "charges_step lib cfg net p r2 c2 w2") auto
        note t3 = charges_step_throttled [OF t2 cs]
        from assms(2) os fo cs t3 show ?thesis
          unfolding unfold by (auto split: sum.splits flow.splits)
      qed
    qed
  qed
qed

lemma main_loop_throttled:
  "throttled c w \<Longrightarrow> main_loop lib cfg net df c w = (res, c', w') \<Longrightarrow> throttled c' w'"
proof (induction df arbitrary: c w res c' w')
  case Nil
  then show ?case by simp
next
  case (Cons r rs)
  obtain rr c1 w1 where pr: "process_row lib cfg net r c w = (rr, c1, w1)"
    by (cases "process_row lib cfg net r c w") auto
  note t1 = process_row_throttled [OF Cons.prems(1) pr]
  show ?case
  proof (cases rr)
    case (Inl e)
    with Cons.prems(2) pr t1 show ?thesis by simp
  next
    case (Inr r')
    obtain res2 c2 w2 where ml: "main_loop lib cfg net rs c1 w1 = (res2, c2, w2)"
      by (cases "main_loop lib cfg net rs c1 w1") auto
    note t2 = Cons.IH [OF t1 ml]
    from Cons.prems(2) pr Inr ml t2 show ?thesis by (auto split: sum.splits)
  qed
qed

lemma query_ch_api_send_time:
  assumes "query_ch_api lib net c url q w = (r, c1, w1)"
  shows "\<exists>t. sent_at w1 = sent_at w @ [t] \<and> last_request_timestamp c1 = Some t \<and>
            time_between_requests c1 = time_between_requests c \<and>
            (last_request_timestamp c = None \<longrightarrow> sleeps w1 = sleeps w) \<and>
            (\<forall>t0. last_request_timestamp c = Some t0 \<longrightarrow> t0 + time_between_requests c \<le> t)"
proof -
  from query_ch_api_send [OF assms] obtain wa where
    rl: "rate_limiting c w = (c1, wa)" and sa: "sent_at w1 = sent_at w @ [clock wa]"
    and sl: "sleeps w1 = sleeps wa" by blast
  show ?thesis
    using rate_limiting_first [OF _ rl] rate_limiting_later [OF _ rl]
      rate_limiting_interval_tbr [OF rl] sa sl
    by (cases "last_request_timestamp c") auto
qed




text \<open>An exception in one row ends the main loop.\<close>

lemma main_loop_append:
  "main_loop lib cfg net (xs @ ys) c w =
     (case main_loop lib cfg net xs c w of
        (Inl e, c1, w1) \<Rightarrow> (Inl e, c1, w1)
      | (Inr out, c1, w1) \<Rightarrow>
          (case main_loop lib cfg net ys c1 w1 of
             (Inl e, c2, w2) \<Rightarrow> (Inl e, c2, w2)
           | (Inr out2, c2, w2) \<Rightarrow> (Inr (out @ out2), c2, w2)))"
  by (induction xs arbitrary: c w) (auto split: prod.splits sum.splits)

lemma main_loop_abort:
  assumes "main_loop lib cfg net before c w = (Inr out, c0, w0)"
    and "process_row lib cfg net r c0 w0 = (Inl e, c1, w1)"
  shows "main_loop lib cfg net (before @ r # rest) c w = (Inl e, c1, w1)"
  using assms by (simp add: main_loop_append)

lemma abort_evals:
  "fst (main_loop (stub_lib (JObj [(''company_number'', JStr ''000'')])) script_config
          (stub_net 200) [empty_row (Some ''000''), empty_row (Some ''111'')]
          (new_client ''k'') start_world) = Inl KeyError"
  "process_row (stub_lib JNull) script_config failing_net (empty_row (Some ''000''))
     (new_client ''k'') start_world =
   (Inl ConnectionError, (new_client ''k'')\<lparr>last_request_timestamp := Some 0\<rparr>,
    start_world\<lparr>sent := [company_url @ ''000''], sent_at := [0]\<rparr>)"
  by (simp_all add: process_row_def get_company_profile_def query_ch_api_def rate_limiting_def
        now_def elapse_def Let_def new_client_def start_world_def stub_net_def stub_lib_def
        failing_net_def empty_row_def str_cell_def url_format_def profile_step_def
        getitem_str_def)

section \<open>The client's operations\<close>

text \<open>
  Claim C4. For a charges response whose \<open>items\<close> is a list, \<open>get_company_charges\<close>
  returns exactly the rows of the charges whose status is not \<open>"fully-satisfied"\<close>, one row
  for each, in their original order: it returns \<open>rows\<close> if and only if every charge has a
  status and \<open>rows\<close> lists the fields of the charges that pass the test. The example of
  the three statuses fully-satisfied, outstanding, part-satisfied follows and yields two rows.
\<close>

theorem get_company_charges_filter:
  assumes "query_ch_api lib net c root_url (charges_path @ page_suffix) w = (Inr resp, c1, w1)"
    and "getitem_str resp ''items'' = Inr (JArr charges_list)"
  shows "get_company_charges lib net c charges_path w = (Inr rows, c1, w1) \<longleftrightarrow>
           list_all (\<lambda>charge. has_key charge ''status'') charges_list \<and>
           map Inr rows = map charge_fields (filter unsatisfied charges_list)"
  using assms charges_of_iff [OF assms(2), of rows]
  by (simp add: get_company_charges_def)

theorem get_company_charges_filter_witness:
  "fst (get_company_charges (stub_lib example_charges) (stub_net 200) (new_client ''k'')
          ''/company/1/charges'' start_world) =
     Inr [[''Description: A registered charge'', ''Created: 2019-01-02'',
           ''Delivered: 2019-01-05'', ''Status: outstanding'',
           ''Persons entitled: First Bank'', ''Short particulars: Land at 1 Main St...''],
          [''Description: A registered charge'', ''Created: 2019-01-02'',
           ''Delivered: 2019-01-05'', ''Status: part-satisfied'',
           ''Persons entitled: First Bank'', ''[No Result]'']]"
proof -
  obtain c1 w1 where q:
    "query_ch_api (stub_lib example_charges) (stub_net 200) (new_client ''k'') root_url
       (''/company/1/charges'' @ page_suffix) start_world = (Inr example_charges, c1, w1)"
    using query_ch_api_result [of "stub_net 200" start_world root_url
        "''/company/1/charges'' @ page_suffix" _ "stub_lib example_charges" "new_client ''k''"]
    by (auto simp: stub_net_def stub_lib_def)
  have items: "getitem_str example_charges ''items'' =
      Inr (JArr [example_charge ''fully-satisfied'' [],
              example_charge ''outstanding'' [(''description'', JStr ''Land at 1 Main St'')],
              example_charge ''part-satisfied'' []])"
    by (simp add: example_charges_def getitem_str_def)
  have ok: "list_all (\<lambda>charge. has_key charge ''status'')
      [example_charge ''fully-satisfied'' [],
       example_charge ''outstanding'' [(''description'', JStr ''Land at 1 Main St'')],
       example_charge ''part-satisfied'' []]"
    by (simp add: example_charge_def has_key_def getitem_str_def)
  have fields: "map Inr
       [[''Description: A registered charge'', ''Created: 2019-01-02'',
         ''Delivered: 2019-01-05'', ''Status: outstanding'',
         ''Persons entitled: First Bank'', ''Short particulars: Land at 1 Main St...''],
        [''Description: A registered charge'', ''Created: 2019-01-02'',
         ''Delivered: 2019-01-05'', ''Status: part-satisfied'',
         ''Persons entitled: First Bank'', ''[No Result]'']] =
     map charge_fields (filter unsatisfied
       [example_charge ''fully-satisfied'' [],
        example_charge ''outstanding'' [(''description'', JStr ''Land at 1 Main St'')],
        example_charge ''part-satisfied'' []])"
    by (simp add: example_charge_def unsatisfied_def charge_fields_def
          fill_charge_def set_cell_def getitem_str_def getitem_int_def py_concat_def py_in_def
          short_particulars_def eval_nat_numeral)
  show ?thesis
    using iffD2 [OF get_company_charges_filter [OF q items] conjI [OF ok fields]]
    by (simp only: fst_conv)
qed




text \<open>
  Claim C8. \<open>get_first_company_search\<close> returns the first element of \<open>items\<close>, and \<open>None\<close>
  when \<open>items\<close> is an empty list (lemma \<open>get_first_company_search_items\<close>). When the response
  has no \<open>items\<close> it does not return \<open>None\<close>: the \<open>try\<close> block catches IndexError only, and the
  KeyError of the missing key leaves the function. This happens for every status other than
  200, for which \<open>query_ch_api\<close> yields the empty dictionary, and for a decoded body without
  the key.
\<close>

theorem get_first_company_search_no_items:
  "fst (get_first_company_search lib (stub_net 404) c name w) = Inl KeyError \<and>
   fst (get_first_company_search (stub_lib (JObj [(''total_results'', JNum 0)])) (stub_net 200)
          c name w) = Inl KeyError"
proof -
  obtain c1 w1 where
    "query_ch_api lib (stub_net 404) c search_url name w = (Inr (JObj []), c1, w1)"
    using query_ch_api_result [of "stub_net 404" w search_url name _ lib c]
    by (auto simp: stub_net_def)
  then have first: "fst (get_first_company_search lib (stub_net 404) c name w) = Inl KeyError"
    by (simp add: get_first_company_search_def getitem_str_def)
  obtain c2 w2 where
    "query_ch_api (stub_lib (JObj [(''total_results'', JNum 0)])) (stub_net 200) c search_url name w
       = (Inr (JObj [(''total_results'', JNum 0)]), c2, w2)"
    using query_ch_api_result [of "stub_net 200" w search_url name _
        "stub_lib (JObj [(''total_results'', JNum 0)])" c]
    by (auto simp: stub_net_def stub_lib_def)
  then have "fst (get_first_company_search (stub_lib (JObj [(''total_results'', JNum 0)]))
      (stub_net 200) c name w) = Inl KeyError"
    by (simp add: get_first_company_search_def getitem_str_def)
  with first show ?thesis by simp
qed

lemma get_first_company_search_items:
  assumes "query_ch_api lib net c search_url name w = (Inr resp, c1, w1)"
    and "getitem_str resp ''items'' = Inr (JArr items)"
  shows "get_first_company_search lib net c name w =
           (Inr (case items of [] \<Rightarrow> None | first_result # _ \<Rightarrow> Some first_result), c1, w1)"
  using assms
  by (simp add: get_first_company_search_def getitem_int_def split: list.splits)




text \<open>
  Claim C3. Every call of \<open>rate_limiting\<close> sets \<open>last_request_timestamp\<close> to the clock
  reading it ends with, whether or not it slept; the first call (no timestamp yet) does not
  call \<open>time.sleep\<close>; a later call ends at least the configured interval after the
  timestamp it found. Every \<open>query_ch_api\<close> call hands its request to \<open>requests.get\<close> at
  exactly the timestamp it stores, so the first request is sent without a wait, and the
  send times of two consecutive calls on one client lie at least the configured interval
  apart, whatever happens to the world between the calls. Over a whole batch the log of
  send times stays spaced by the interval. The start of an outbound call is the moment its
  request is sent; times are exact, and \<open>time.sleep\<close> blocks for at least the requested
  duration.
\<close>

theorem rate_limiting_interval:
  "(rate_limiting c w = (c', w') \<longrightarrow>
      last_request_timestamp c' = Some (clock w') \<and>
      (last_request_timestamp c = None \<longrightarrow> sleeps w' = sleeps w) \<and>
      (\<forall>t0. last_request_timestamp c = Some t0 \<longrightarrow> t0 + time_between_requests c \<le> clock w'))
   \<and> (query_ch_api lib net c url1 q1 w = (r1, c1, w1) \<longrightarrow>
        (\<exists>t1. sent_at w1 = sent_at w @ [t1] \<and> last_request_timestamp c1 = Some t1 \<and>
              (last_request_timestamp c = None \<longrightarrow> sleeps w1 = sleeps w) \<and>
              (\<forall>t0. last_request_timestamp c = Some t0 \<longrightarrow>
                    t0 + time_between_requests c \<le> t1)))
   \<and> (query_ch_api lib net c url1 q1 w = (r1, c1, w1) \<and>
        query_ch_api lib' net' c1 url2 q2 v = (r2, c2, w2) \<longrightarrow>
        (\<exists>t1 t2. sent_at w1 = sent_at w @ [t1] \<and> sent_at w2 = sent_at v @ [t2] \<and>
                 t1 + time_between_requests c \<le> t2))
   \<and> (throttled c w \<and> main_loop lib cfg net df c w = (res, cN, wN) \<longrightarrow> throttled cN wN)"
proof (intro conjI)
  show "rate_limiting c w = (c', w') \<longrightarrow>
      last_request_timestamp c' = Some (clock w') \<and>
      (last_request_timestamp c = None \<longrightarrow> sleeps w' = sleeps w) \<and>
      (\<forall>t0. last_request_timestamp c = Some t0 \<longrightarrow> t0 + time_between_requests c \<le> clock w')"
  proof
    assume rl: "rate_limiting c w = (c', w')"
    show "last_request_timestamp c' = Some (clock w') \<and>
      (last_request_timestamp c = None \<longrightarrow> sleeps w' = sleeps w) \<and>
      (\<forall>t0. last_request_timestamp c = Some t0 \<longrightarrow> t0 + time_between_requests c \<le> clock w')"
      using rate_limiting_first [OF _ rl] rate_limiting_later [OF _ rl]
      by (cases "last_request_timestamp c") auto
  qed
  show "query_ch_api lib net c url1 q1 w = (r1, c1, w1) \<longrightarrow>
        (\<exists>t1. sent_at w1 = sent_at w @ [t1] \<and> last_request_timestamp c1 = Some t1 \<and>
              (last_request_timestamp c = None \<longrightarrow> sleeps w1 = sleeps w) \<and>
              (\<forall>t0. last_request_timestamp c = Some t0 \<longrightarrow>
                    t0 + time_between_requests c \<le> t1))"
  proof
    assume q: "query_ch_api lib net c url1 q1 w = (r1, c1, w1)"
    from query_ch_api_send_time [OF q] obtain t where
      f: "sent_at w1 = sent_at w @ [t]" "last_request_timestamp c1 = Some t"
         "last_request_timestamp c = None \<longrightarrow> sleeps w1 = sleeps w"
         "\<forall>t0. last_request_timestamp c = Some t0 \<longrightarrow> t0 + time_between_requests c \<le> t"
      by (elim exE conjE)
    show "\<exists>t1. sent_at w1 = sent_at w @ [t1] \<and> last_request_timestamp c1 = Some t1 \<and>
              (last_request_timestamp c = None \<longrightarrow> sleeps w1 = sleeps w) \<and>
              (\<forall>t0. last_request_timestamp c = Some t0 \<longrightarrow>
                    t0 + time_between_requests c \<le> t1)"
      by (rule exI [of _ t]) (intro conjI f)
  qed
  show "query_ch_api lib net c url1 q1 w = (r1, c1, w1) \<and>
        query_ch_api lib' net' c1 url2 q2 v = (r2, c2, w2) \<longrightarrow>
        (\<exists>t1 t2. sent_at w1 = sent_at w @ [t1] \<and> sent_at w2 = sent_at v @ [t2] \<and>
                 t1 + time_between_requests c \<le> t2)"
  proof
    assume two: "query_ch_api lib net c url1 q1 w = (r1, c1, w1) \<and>
        query_ch_api lib' net' c1 url2 q2 v = (r2, c2, w2)"
    then have q1: "query_ch_api lib net c url1 q1 w = (r1, c1, w1)"
      and q2: "query_ch_api lib' net' c1 url2 q2 v = (r2, c2, w2)" by (rule conjunct1, rule conjunct2)
    from query_ch_api_send_time [OF q1] obtain t1 where
      a: "sent_at w1 = sent_at w @ [t1]" "last_request_timestamp c1 = Some t1"
         "time_between_requests c1 = time_between_requests c"
      by (elim exE conjE)
    from query_ch_api_send_time [OF q2] obtain t2 where
      b: "sent_at w2 = sent_at v @ [t2]"
         "\<forall>t0. last_request_timestamp c1 = Some t0 \<longrightarrow> t0 + time_between_requests c1 \<le> t2"
      by (elim exE conjE)
    from b(2) a(2,3) have gap: "t1 + time_between_requests c \<le> t2" by simp
    show "\<exists>t1 t2. sent_at w1 = sent_at w @ [t1] \<and> sent_at w2 = sent_at v @ [t2] \<and>
                 t1 + time_between_requests c \<le> t2"
      by (rule exI [of _ t1], rule exI [of _ t2]) (intro conjI a(1) b(1) gap)
  qed
  show "throttled c w \<and> main_loop lib cfg net df c w = (res, cN, wN) \<longrightarrow> throttled cN wN"
    by (rule impI, elim conjE) (rule main_loop_throttled)
qed

theorem rate_limiting_interval_witness:
  "(let (r1, c1, w1) = query_ch_api (stub_lib JNull) (stub_net 200) (new_client ''k'')
                         company_url ''1'' ticking_world;
        (r2, c2, w2) = query_ch_api (stub_lib JNull) (stub_net 200) c1 company_url ''2'' w1
    in sent_at w1 = [5] \<and> sleeps w1 = [] \<and>
       sent_at w2 = [5, 600016] \<and> sleeps w2 = [499993] \<and>
       (\<exists>t1 t2. sent_at w1 = sent_at ticking_world @ [t1] \<and> sent_at w2 = sent_at w1 @ [t2] \<and>
                t1 + time_between_requests (new_client ''k'') \<le> t2))
   \<and> (let (res, cN, wN) = main_loop (stub_lib JNull) script_config (stub_net 404)
                            [empty_row (Some ''000''), empty_row None, empty_row (Some ''111'')]
                            (new_client ''k'') ticking_world
        in sent_at wN = [5, 600016] \<and> throttled cN wN)"
proof -
  obtain r1 c1 w1 where q1:
    "query_ch_api (stub_lib JNull) (stub_net 200) (new_client ''k'') company_url ''1''
       ticking_world = (r1, c1, w1)"
    by (cases "query_ch_api (stub_lib JNull) (stub_net 200) (new_client ''k'') company_url ''1''
       ticking_world") auto
  obtain r2 c2 w2 where q2:
    "query_ch_api (stub_lib JNull) (stub_net 200) c1 company_url ''2'' w1 = (r2, c2, w2)"
    by (cases "query_ch_api (stub_lib JNull) (stub_net 200) c1 company_url ''2'' w1") auto
  have gap: "\<exists>t1 t2. sent_at w1 = sent_at ticking_world @ [t1] \<and> sent_at w2 = sent_at w1 @ [t2] \<and>
                t1 + time_between_requests (new_client ''k'') \<le> t2"
    using rate_limiting_interval [THEN conjunct2, THEN conjunct2, THEN conjunct1, rule_format,
        OF conjI [OF q1 q2]] .
  have first: "sent_at w1 = [5] \<and> last_request_timestamp c1 = Some 5 \<and> sleeps w1 = [] \<and>
      clock w1 = 100005 \<and> pending w1 = [7, 11, 13] \<and> time_between_requests c1 = 600000"
    using q1
    by (auto simp: query_ch_api_def rate_limiting_def now_def elapse_def Let_def
          new_client_def ticking_world_def stub_net_def)
  have second: "sent_at w2 = [5, 600016] \<and> sleeps w2 = [499993]"
    using q2 first
    by (auto simp: query_ch_api_def rate_limiting_def now_def elapse_def sleep_def Let_def
          stub_net_def)
  obtain res cN wN where ml:
    "main_loop (stub_lib JNull) script_config (stub_net 404)
       [empty_row (Some ''000''), empty_row None, empty_row (Some ''111'')]
       (new_client ''k'') ticking_world = (res, cN, wN)"
    by (cases "main_loop (stub_lib JNull) script_config (stub_net 404)
       [empty_row (Some ''000''), empty_row None, empty_row (Some ''111'')]
       (new_client ''k'') ticking_world") auto
  have start: "throttled (new_client ''k'') ticking_world"
    by (simp add: throttled_def new_client_def ticking_world_def)
  have inv: "throttled cN wN"
    using rate_limiting_interval [THEN conjunct2, THEN conjunct2, THEN conjunct2, rule_format,
        OF conjI [OF start ml]] .
  have log: "sent_at wN = [5, 600016]"
    using ml
    by (auto simp: process_row_def get_company_profile_def query_ch_api_def rate_limiting_def
          now_def elapse_def sleep_def Let_def new_client_def ticking_world_def stub_net_def
          empty_row_def str_cell_def)
  show ?thesis
    using q1 q2 gap first second ml inv log by simp
qed

section \<open>The batch runner\<close>

text \<open>
  Claim C1, as the code has it. When the main loop runs to its end over \<open>N\<close> rows, the table
  has \<open>N\<close> rows with the company numbers of the input in the same order. A row whose
  identifier is blank is left exactly as it was: no cell of it is written, no sentinel
  either, and the client is not called (the client and the world stay as they were). When
  the processing of a row raises an exception, the main loop ends with that exception at
  that row, whatever rows follow, and there is no table.
\<close>

theorem main_loop_one_row_per_input:
  "(main_loop lib cfg net df c w = (Inr out, c', w') \<longrightarrow>
      length out = length df \<and> map company_number out = map company_number df \<and>
      (\<forall>i < length df. blank_identifier (df ! i) \<longrightarrow> out ! i = df ! i))
   \<and> (blank_identifier r \<longrightarrow> process_row lib cfg net r c w = (Inr r, c, w))
   \<and> (main_loop lib cfg net before c w = (Inr done, c0, w0) \<and>
        process_row lib cfg net r c0 w0 = (Inl e, c1, w1) \<longrightarrow>
        main_loop lib cfg net (before @ r # rest) c w = (Inl e, c1, w1))"
  using main_loop_rows [of lib cfg net df c w out c' w'] process_row_blank [of r lib cfg net c w]
    main_loop_abort [of lib cfg net before c w "done" c0 w0 r e c1 w1 rest]
  by blast

theorem main_loop_one_row_per_input_witness:
  "(case main_loop (stub_lib JNull) script_config (stub_net 404)
          [empty_row None, empty_row (Some ''000'')] (new_client ''k'') start_world of
      (Inl e, c', w') \<Rightarrow> False
    | (Inr out, c', w') \<Rightarrow>
        length out = 2 \<and> map company_number out = [None, Some ''000''] \<and>
        out ! 0 = empty_row None \<and> company_name (out ! 1) = Some ''[No Result]'')
   \<and> process_row (stub_lib JNull) script_config (stub_net 404) (empty_row None)
         (new_client ''k'') start_world = (Inr (empty_row None), new_client ''k'', start_world)
   \<and> main_loop (stub_lib JNull) script_config failing_net
         ([empty_row None] @ empty_row (Some ''000'') # [empty_row (Some ''111'')])
         (new_client ''k'') start_world =
       (Inl ConnectionError, (new_client ''k'')\<lparr>last_request_timestamp := Some 0\<rparr>,
        start_world\<lparr>sent := [company_url @ ''000''], sent_at := [0]\<rparr>)"
proof -
  obtain res c' w' where ml:
    "main_loop (stub_lib JNull) script_config (stub_net 404)
       [empty_row None, empty_row (Some ''000'')] (new_client ''k'') start_world = (res, c', w')"
    by (cases "main_loop (stub_lib JNull) script_config (stub_net 404)
       [empty_row None, empty_row (Some ''000'')] (new_client ''k'') start_world") auto
  with two_rows_eval obtain out where res: "res = Inr out"
    and out: "out = [empty_row None,
          (empty_row (Some ''000''))
            \<lparr>company_name := Some ''[No Result]'', jurisdiction := Some ''[No Result]'',
             ctype := Some ''[No Result]'', registered_office_address := Some ''[No Result]''\<rparr>]"
    by simp
  have b: "blank_identifier (empty_row None)"
    by (simp add: blank_identifier_def empty_row_def str_cell_def)
  note rows = main_loop_one_row_per_input [where lib = "stub_lib JNull" and cfg = script_config
      and net = "stub_net 404" and df = "[empty_row None, empty_row (Some ''000'')]"
      and c = "new_client ''k''" and w = start_world and out = out and c' = c' and w' = w'
      and r = "empty_row None", THEN conjunct1, rule_format, OF ml [unfolded res]]
  note untouched = main_loop_one_row_per_input [where lib = "stub_lib JNull"
      and cfg = script_config and net = "stub_net 404" and c = "new_client ''k''"
      and w = start_world and r = "empty_row None",
      THEN conjunct2, THEN conjunct1, rule_format, OF b]
  have pre: "main_loop (stub_lib JNull) script_config failing_net [empty_row None]
      (new_client ''k'') start_world = (Inr [empty_row None], new_client ''k'', start_world)"
    by (simp add: process_row_def empty_row_def str_cell_def)
  note abort = main_loop_one_row_per_input [where lib = "stub_lib JNull" and cfg = script_config
      and net = failing_net and c = "new_client ''k''" and w = start_world
      and before = "[empty_row None]" and r = "empty_row (Some ''000'')"
      and rest = "[empty_row (Some ''111'')]",
      THEN conjunct2, THEN conjunct2, rule_format, OF conjI [OF pre abort_evals(2)]]
  have first: "length out = 2 \<and> map company_number out = [None, Some ''000''] \<and>
        out ! 0 = empty_row None \<and> company_name (out ! 1) = Some ''[No Result]''"
    using rows b by (auto simp: out empty_row_def)
  from first untouched abort ml res show ?thesis by simp
qed

text \<open>
  Claim C1 as stated asks for a table of \<open>N\<close> rows for every input and for sentinel values
  in the row of a blank identifier. The row of a blank identifier comes out with its cells
  still empty; a profile without a company name ends the batch with KeyError and a
  registry that cannot be reached ends it with the transport exception, in both cases
  before the rows that follow are processed.
\<close>

theorem main_loop_blank_or_abort:
  "fst (main_loop (stub_lib JNull) script_config (stub_net 200) [empty_row None]
          (new_client ''k'') start_world) = Inr [empty_row None] \<and>
   company_name (empty_row None) \<noteq> Some ''[No Result]'' \<and>
   jurisdiction (empty_row None) \<noteq> Some ''[No Result]'' \<and>
   ctype (empty_row None) \<noteq> Some ''[No Result]'' \<and>
   registered_office_address (empty_row None) \<noteq> Some ''[No Result]'' \<and>
   insolvency (empty_row None) \<noteq> Some ''[No Insolvency Data]'' \<and>
   fst (main_loop (stub_lib (JObj [(''company_number'', JStr ''000'')])) script_config
          (stub_net 200) [empty_row (Some ''000''), empty_row (Some ''111'')]
          (new_client ''k'') start_world) = Inl KeyError \<and>
   fst (main_loop (stub_lib JNull) script_config failing_net
          [empty_row None, empty_row (Some ''000''), empty_row (Some ''111'')]
          (new_client ''k'') start_world) = Inl ConnectionError"
proof -
  have blank: "fst (main_loop (stub_lib JNull) script_config (stub_net 200) [empty_row None]
          (new_client ''k'') start_world) = Inr [empty_row None]"
    by (simp add: process_row_def empty_row_def str_cell_def)
  have fields: "company_name (empty_row None) \<noteq> Some ''[No Result]'' \<and>
     jurisdiction (empty_row None) \<noteq> Some ''[No Result]'' \<and>
     ctype (empty_row None) \<noteq> Some ''[No Result]'' \<and>
     registered_office_address (empty_row None) \<noteq> Some ''[No Result]'' \<and>
     insolvency (empty_row None) \<noteq> Some ''[No Insolvency Data]''"
    by (simp add: empty_row_def)
  have pre: "main_loop (stub_lib JNull) script_config failing_net [empty_row None]
      (new_client ''k'') start_world = (Inr [empty_row None], new_client ''k'', start_world)"
    by (simp add: process_row_def empty_row_def str_cell_def)
  have transport: "fst (main_loop (stub_lib JNull) script_config failing_net
          ([empty_row None] @ empty_row (Some ''000'') # [empty_row (Some ''111'')])
          (new_client ''k'') start_world) = Inl ConnectionError"
    by (simp only: main_loop_abort [OF pre abort_evals(2)] fst_conv)
  from blank fields abort_evals(1) transport show ?thesis by simp
qed

text \<open>
  Claim C2. When the registry answers with a status other than 200, \<open>query_ch_api\<close> (and so
  \<open>get_company_profile\<close>) returns the empty dictionary and raises nothing. When the profile
  of a row is the empty dictionary, the main loop sets Company Name, Jurisdiction, Type and
  Registered Office Address of that row to \<open>[No Result]\<close> and goes on with the rows that
  follow, from the state the profile request left.
\<close>

theorem non_success_status_no_result:
  "(net (sent w) (url_format url q) = Inr resp \<and> status_code resp \<noteq> 200 \<longrightarrow>
      fst (query_ch_api lib net c url q w) = Inr (JObj []))
   \<and> (\<not> blank_identifier r \<and>
       get_company_profile lib net c (str_cell (company_number r)) w = (Inr (JObj []), c1, w1) \<longrightarrow>
         process_row lib cfg net r c w =
           (Inr (r\<lparr>company_name := Some ''[No Result]'', jurisdiction := Some ''[No Result]'',
                   ctype := Some ''[No Result]'',
                   registered_office_address := Some ''[No Result]''\<rparr>), c1, w1) \<and>
         main_loop lib cfg net (r # rs) c w =
           (case main_loop lib cfg net rs c1 w1 of
              (Inl e, c2, w2) \<Rightarrow> (Inl e, c2, w2)
            | (Inr out, c2, w2) \<Rightarrow>
                (Inr (r\<lparr>company_name := Some ''[No Result]'', jurisdiction := Some ''[No Result]'',
                        ctype := Some ''[No Result]'',
                        registered_office_address := Some ''[No Result]''\<rparr> # out), c2, w2)))"
proof (rule conjI; rule impI)
  assume "net (sent w) (url_format url q) = Inr resp \<and> status_code resp \<noteq> 200"
  then show "fst (query_ch_api lib net c url q w) = Inr (JObj [])"
    using query_ch_api_result [of net w url q resp lib c] by auto
next
  assume a: "\<not> blank_identifier r \<and>
       get_company_profile lib net c (str_cell (company_number r)) w = (Inr (JObj []), c1, w1)"
  then have pr: "process_row lib cfg net r c w =
           (Inr (r\<lparr>company_name := Some ''[No Result]'', jurisdiction := Some ''[No Result]'',
                   ctype := Some ''[No Result]'',
                   registered_office_address := Some ''[No Result]''\<rparr>), c1, w1)"
    by (simp add: process_row_def blank_identifier_def)
  then show "process_row lib cfg net r c w =
           (Inr (r\<lparr>company_name := Some ''[No Result]'', jurisdiction := Some ''[No Result]'',
                   ctype := Some ''[No Result]'',
                   registered_office_address := Some ''[No Result]''\<rparr>), c1, w1) \<and>
         main_loop lib cfg net (r # rs) c w =
           (case main_loop lib cfg net rs c1 w1 of
              (Inl e, c2, w2) \<Rightarrow> (Inl e, c2, w2)
            | (Inr out, c2, w2) \<Rightarrow>
                (Inr (r\<lparr>company_name := Some ''[No Result]'', jurisdiction := Some ''[No Result]'',
                        ctype := Some ''[No Result]'',
                        registered_office_address := Some ''[No Result]''\<rparr> # out), c2, w2))"
    by simp
qed

theorem non_success_status_no_result_witness:
  "fst (query_ch_api (stub_lib JNull) (stub_net 404) (new_client ''k'') company_url ''000''
          start_world) = Inr (JObj []) \<and>
   fst (main_loop (stub_lib JNull) script_config (stub_net 404)
          [empty_row (Some ''000''), empty_row (Some ''111'')] (new_client ''k'') start_world) =
     Inr [(empty_row (Some ''000''))
            \<lparr>company_name := Some ''[No Result]'', jurisdiction := Some ''[No Result]'',
             ctype := Some ''[No Result]'', registered_office_address := Some ''[No Result]''\<rparr>,
          (empty_row (Some ''111''))
            \<lparr>company_name := Some ''[No Result]'', jurisdiction := Some ''[No Result]'',
             ctype := Some ''[No Result]'', registered_office_address := Some ''[No Result]''\<rparr>]"
proof -
  have net: "stub_net 404 (sent start_world) (url_format company_url ''000'') =
      Inr \<lparr>status_code = 404, response_text = ''body''\<rparr> \<and>
      status_code \<lparr>status_code = 404, response_text = ''body''\<rparr> \<noteq> 200"
    by (simp add: stub_net_def)
  note inst = non_success_status_no_result [of "stub_net 404" start_world company_url "''000''"
      "\<lparr>status_code = 404, response_text = ''body''\<rparr>" "stub_lib JNull" "new_client ''k''"
      "empty_row (Some ''000'')" _ _ script_config "[empty_row (Some ''111'')]"]
  have q: "fst (query_ch_api (stub_lib JNull) (stub_net 404) (new_client ''k'') company_url ''000''
          start_world) = Inr (JObj [])"
    using inst [THEN conjunct1] net by blast
  obtain c1 w1 where gp:
    "get_company_profile (stub_lib JNull) (stub_net 404) (new_client ''k'')
       (str_cell (company_number (empty_row (Some ''000'')))) start_world = (Inr (JObj []), c1, w1)"
    using q
    by (cases "query_ch_api (stub_lib JNull) (stub_net 404) (new_client ''k'') company_url ''000''
          start_world")
       (auto simp: get_company_profile_def empty_row_def str_cell_def)
  have nb: "\<not> blank_identifier (empty_row (Some ''000''))"
    by (simp add: blank_identifier_def empty_row_def str_cell_def)
  have rest: "fst (main_loop (stub_lib JNull) script_config (stub_net 404)
      [empty_row (Some ''111'')] c1 w1) =
      Inr [(empty_row (Some ''111''))
            \<lparr>company_name := Some ''[No Result]'', jurisdiction := Some ''[No Result]'',
             ctype := Some ''[No Result]'', registered_office_address := Some ''[No Result]''\<rparr>]"
  proof -
    obtain c2 w2 where
      "query_ch_api (stub_lib JNull) (stub_net 404) c1 company_url ''111'' w1 = (Inr (JObj []), c2, w2)"
      using query_ch_api_result [of "stub_net 404" w1 company_url "''111''" _ "stub_lib JNull" c1]
      by (auto simp: stub_net_def)
    then show ?thesis
      by (simp add: process_row_def get_company_profile_def empty_row_def str_cell_def)
  qed
  from inst [THEN conjunct2, of c1 w1] nb gp
  have "main_loop (stub_lib JNull) script_config (stub_net 404)
      (empty_row (Some ''000'') # [empty_row (Some ''111'')]) (new_client ''k'') start_world =
      (case main_loop (stub_lib JNull) script_config (stub_net 404) [empty_row (Some ''111'')] c1 w1 of
              (Inl e, c2, w2) \<Rightarrow> (Inl e, c2, w2)
            | (Inr out, c2, w2) \<Rightarrow>
                (Inr ((empty_row (Some ''000''))\<lparr>company_name := Some ''[No Result]'',
                        jurisdiction := Some ''[No Result]'',
                        ctype := Some ''[No Result]'',
                        registered_office_address := Some ''[No Result]''\<rparr> # out), c2, w2))"
    by blast
  with rest q show ?thesis
    by (cases "main_loop (stub_lib JNull) script_config (stub_net 404) [empty_row (Some ''111'')] c1 w1")
       auto
qed

text \<open>
  Claim C6. Every component after \<open>address_line_1\<close> is appended with \<open>", "\<close> in front of it,
  whether or not anything precedes it (lemma \<open>address_string_dict\<close>). So an address without
  \<open>address_line_1\<close> yields a string that starts with a comma: only a locality
  \<open>London\<close> gives \<open>", London"\<close>. With \<open>address_line_1\<close> present the components are
  separated as the claim says, as in its example (lemma \<open>address_spec_example\<close>).
\<close>

theorem address_leading_comma:
  "address_string lib (example_profile [(''locality'', JStr ''London'')] links indicator) =
     Inr '', London'' \<and>
   address_string lib
     (example_profile [(''address_line_2'', JStr ''Floor 2''), (''postal_code'', JStr ''N1 1AA'')]
        links indicator) = Inr '', Floor 2, N1 1AA''"
proof -
  have a: "getitem_str (example_profile address links indicator) ''registered_office_address'' =
      Inr (JObj address)" for address
    by (simp add: example_profile_def getitem_str_def)
  show ?thesis
    by (simp add: address_string_dict [OF a] component_def py_str_def)
qed

lemma address_spec_example:
  "address_string lib
     (example_profile [(''address_line_1'', JStr ''1 Main St''), (''locality'', JStr ''London'')]
        links indicator) = Inr ''1 Main St, London''"
proof -
  have a: "getitem_str (example_profile address links indicator) ''registered_office_address'' =
      Inr (JObj address)" for address
    by (simp add: example_profile_def getitem_str_def)
  show ?thesis
    by (simp add: address_string_dict [OF a] component_def py_str_def)
qed

lemma leading_comma_in_row:
  "fst (process_row (stub_lib (example_profile [(''locality'', JStr ''London'')] [] JNull))
          \<lparr>getOfficers = False, getCharges = False, getInsolvency = False\<rparr> (stub_net 200)
          (empty_row (Some ''00445790'')) (new_client ''k'') start_world) =
     Inr ((empty_row (Some ''00445790''))
            \<lparr>company_name := Some ''ACME LTD'', jurisdiction := Some ''england-wales'',
             ctype := Some ''ltd'', registered_office_address := Some '', London''\<rparr>)"
proof -
  let ?p = "example_profile [(''locality'', JStr ''London'')] [] JNull"
  obtain c1 w1 where q:
    "query_ch_api (stub_lib ?p) (stub_net 200) (new_client ''k'') company_url ''00445790''
       start_world = (Inr ?p, c1, w1)"
    using query_ch_api_result [of "stub_net 200" start_world company_url "''00445790''" _
        "stub_lib ?p" "new_client ''k''"]
    by (auto simp: stub_net_def stub_lib_def)
  have a: "getitem_str ?p ''registered_office_address'' = Inr (JObj [(''locality'', JStr ''London'')])"
    by (simp add: example_profile_def getitem_str_def)
  have ps: "profile_step (stub_lib ?p) ?p (empty_row (Some ''00445790'')) =
     Inr ((empty_row (Some ''00445790''))
            \<lparr>company_name := Some ''ACME LTD'', jurisdiction := Some ''england-wales'',
             ctype := Some ''ltd'', registered_office_address := Some '', London''\<rparr>)"
    by (simp add: profile_step_def address_string_dict [OF a] component_def py_str_def)
       (simp add: example_profile_def getitem_str_def stub_lib_def)
  have ne: "?p \<noteq> JObj []" by (simp add: example_profile_def)
  show ?thesis
    using q ps ne
    by (simp add: process_row_def get_company_profile_def officers_step_def charges_step_def
          insolvency_step_def Let_def empty_row_def str_cell_def)
qed

text \<open>
  Claim C7. With insolvency reporting enabled (the flags as the script sets them), the
  indicator \<open>has_insolvency_history\<close> of a profile never reaches the Insolvency cell.
  The block tests the link \<open>involvency\<close>: a profile with the indicator and an
  \<open>insolvency\<close> link gets the sentinel; a profile that has the link \<open>involvency\<close> and
  a string indicator leaves the cell unwritten; with a boolean indicator the concatenation
  for printing raises TypeError. Whatever the profile, the block writes the sentinel or
  nothing (lemma \<open>insolvency_step_writes\<close>).
\<close>

theorem insolvency_indicator_not_surfaced:
  "fst (process_row
          (stub_lib (example_profile []
             [(''self'', JStr ''/company/00445790''),
              (''insolvency'', JStr ''/company/00445790/insolvency'')] (JBool True)))
          script_config (stub_net 200) (empty_row (Some ''00445790'')) (new_client ''k'')
          start_world) =
     Inr (example_row\<lparr>insolvency := Some ''[No Insolvency Data]''\<rparr>)
   \<and> fst (process_row
          (stub_lib (example_profile [] [(''involvency'', JStr ''/x'')] (JStr ''yes'')))
          script_config (stub_net 200) (empty_row (Some ''00445790'')) (new_client ''k'')
          start_world) = Inr example_row
   \<and> insolvency example_row = None
   \<and> fst (process_row
          (stub_lib (example_profile [] [(''involvency'', JStr ''/x'')] (JBool True)))
          script_config (stub_net 200) (empty_row (Some ''00445790'')) (new_client ''k'')
          start_world) = Inl TypeError"
  by (simp add: example_process_row officers_step_def charges_step_def insolvency_step_def
        script_config_def)
     (simp add: example_profile_def getitem_str_def py_in_def py_concat_def example_row_def)

lemma insolvency_step_writes:
  "insolvency_step cfg p r = Inr f \<Longrightarrow>
     f = Proceed r \<or> f = Continue (r\<lparr>insolvency := Some ''[No Insolvency Data]''\<rparr>)"
  by (auto simp: insolvency_step_def then_do_Inr_iff split: if_splits)

text \<open>
  Claim C10. Let the profile of a row be not empty and its name, jurisdiction, type and
  address be filled in. If directors are to be fetched and the links have no \<open>officers\<close>
  entry, the row gets \<open>[No Directors]\<close> and nothing else happens for it: its Charges and
  Insolvency cells stay as they were, whatever the other two flags, and the client and the
  world are those the profile request left. Likewise, if the officers block falls through,
  charges are to be fetched and the links have no \<open>charges\<close> entry, the row gets
  \<open>[No Charges]\<close> and the Insolvency cell stays as it was.
\<close>

theorem missing_link_skips_rest:
  assumes "\<not> blank_identifier r"
    and "get_company_profile lib net c (str_cell (company_number r)) w = (Inr p, c1, w1)"
    and "p \<noteq> JObj []"
    and "profile_step lib p r = Inr r1"
    and "getitem_str p ''links'' = Inr links"
  shows "(getOfficers cfg \<and> py_in ''officers'' links = Inr False \<longrightarrow>
            process_row lib cfg net r c w =
              (Inr (r1\<lparr>directors := Some ''[No Directors]''\<rparr>), c1, w1) \<and>
            charges (r1\<lparr>directors := Some ''[No Directors]''\<rparr>) = charges r \<and>
            insolvency (r1\<lparr>directors := Some ''[No Directors]''\<rparr>) = insolvency r)
       \<and> (\<forall>r2 c2 w2.
            officers_step lib cfg net p r1 c1 w1 = (Inr (Proceed r2), c2, w2) \<and>
            getCharges cfg \<and> py_in ''charges'' links = Inr False \<longrightarrow>
              process_row lib cfg net r c w =
                (Inr (r2\<lparr>charges := Some ''[No Charges]''\<rparr>), c2, w2) \<and>
              insolvency (r2\<lparr>charges := Some ''[No Charges]''\<rparr>) = insolvency r)"
proof (rule conjI)
  note unfold = process_row_nonempty [OF assms(1-4), of cfg]
  note frame = profile_step_frame [OF assms(4)]
  show "getOfficers cfg \<and> py_in ''officers'' links = Inr False \<longrightarrow>
            process_row lib cfg net r c w =
              (Inr (r1\<lparr>directors := Some ''[No Directors]''\<rparr>), c1, w1) \<and>
            charges (r1\<lparr>directors := Some ''[No Directors]''\<rparr>) = charges r \<and>
            insolvency (r1\<lparr>directors := Some ''[No Directors]''\<rparr>) = insolvency r"
    using assms(5) frame by (simp add: unfold officers_step_def)
  show "\<forall>r2 c2 w2.
            officers_step lib cfg net p r1 c1 w1 = (Inr (Proceed r2), c2, w2) \<and>
            getCharges cfg \<and> py_in ''charges'' links = Inr False \<longrightarrow>
              process_row lib cfg net r c w =
                (Inr (r2\<lparr>charges := Some ''[No Charges]''\<rparr>), c2, w2) \<and>
              insolvency (r2\<lparr>charges := Some ''[No Charges]''\<rparr>) = insolvency r"
  proof (intro allI impI)
    fix r2 c2 w2
    assume a: "officers_step lib cfg net p r1 c1 w1 = (Inr (Proceed r2), c2, w2) \<and>
            getCharges cfg \<and> py_in ''charges'' links = Inr False"
    with officers_step_frame [of lib cfg net p r1 c1 w1 r2 c2 w2] frame assms(5)
    show "process_row lib cfg net r c w =
                (Inr (r2\<lparr>charges := Some ''[No Charges]''\<rparr>), c2, w2) \<and>
              insolvency (r2\<lparr>charges := Some ''[No Charges]''\<rparr>) = insolvency r"
      by (simp add: unfold charges_step_def)
  qed
qed

theorem missing_link_skips_rest_witness:
  "process_row (stub_lib (example_profile [] [(''self'', JStr ''/company/00445790'')] (JBool False)))
     all_flags (stub_net 200) (empty_row (Some ''00445790'')) (new_client ''k'') start_world =
   (Inr (example_row\<lparr>directors := Some ''[No Directors]''\<rparr>),
    (new_client ''k'')\<lparr>last_request_timestamp := Some 0\<rparr>,
    start_world\<lparr>sent := [company_url @ ''00445790''], sent_at := [0]\<rparr>)
   \<and> charges (example_row\<lparr>directors := Some ''[No Directors]''\<rparr>) = None
   \<and> insolvency (example_row\<lparr>directors := Some ''[No Directors]''\<rparr>) = None
   \<and> process_row (stub_lib (example_profile [] [(''self'', JStr ''/company/00445790'')] (JBool False)))
     without_officers (stub_net 200) (empty_row (Some ''00445790'')) (new_client ''k'') start_world =
   (Inr (example_row\<lparr>charges := Some ''[No Charges]''\<rparr>),
    (new_client ''k'')\<lparr>last_request_timestamp := Some 0\<rparr>,
    start_world\<lparr>sent := [company_url @ ''00445790''], sent_at := [0]\<rparr>)
   \<and> insolvency (example_row\<lparr>charges := Some ''[No Charges]''\<rparr>) = None"
proof -
  let ?p = "example_profile [] [(''self'', JStr ''/company/00445790'')] (JBool False)"
  let ?c1 = "(new_client ''k'')\<lparr>last_request_timestamp := Some 0\<rparr>"
  let ?w1 = "start_world\<lparr>sent := [company_url @ ''00445790''], sent_at := [0]\<rparr>"
  have nb: "\<not> blank_identifier (empty_row (Some ''00445790''))"
    by (simp add: blank_identifier_def empty_row_def str_cell_def)
  have gp: "get_company_profile (stub_lib ?p) (stub_net 200)
      (new_client ''k'') (str_cell (company_number (empty_row (Some ''00445790'')))) start_world =
     (Inr ?p, ?c1, ?w1)"
    by (simp add: stub_fetch empty_row_def str_cell_def)
  have ne: "?p \<noteq> JObj []"
    by (simp add: example_profile_def)
  have links: "getitem_str ?p ''links'' = Inr (JObj [(''self'', JStr ''/company/00445790'')])"
    by (simp add: example_profile_def getitem_str_def)
  have no: "getOfficers all_flags \<and>
      py_in ''officers'' (JObj [(''self'', JStr ''/company/00445790'')]) = Inr False"
    by (simp add: all_flags_def py_in_def)
  have nc: "officers_step (stub_lib ?p) without_officers (stub_net 200) ?p example_row ?c1 ?w1 =
        (Inr (Proceed example_row), ?c1, ?w1) \<and>
      getCharges without_officers \<and>
      py_in ''charges'' (JObj [(''self'', JStr ''/company/00445790'')]) = Inr False"
    by (simp add: officers_step_def without_officers_def py_in_def)
  note first = missing_link_skips_rest [OF nb gp ne example_profile_step links,
      where cfg = all_flags, THEN conjunct1, rule_format, OF no]
  note second = missing_link_skips_rest [OF nb gp ne example_profile_step links,
      where cfg = without_officers, THEN conjunct2, rule_format, OF nc]
  from first second show ?thesis by (simp add: empty_row_def)
qed

end
